theory Spec2Isabelle
  imports Complex_Main "HOL-Library.Multiset" "HOL-Library.Word"
begin

section \<open>Values, exceptions and sparse matrices\<close>

text \<open>
  The assembly code of \<^verbatim>\<open>fs_shapeDNA.py\<close> works on numpy float arrays. The model
  computes in exact real arithmetic. A numpy float is a \<open>real option\<close>: \<open>Some x\<close> is the
  finite value \<open>x\<close>, \<open>None\<close> is a non-finite value (\<open>inf\<close>, \<open>-inf\<close> or \<open>nan\<close>). numpy does
  not raise on a float division by zero, it warns and stores \<open>inf\<close> or \<open>nan\<close>; a non-finite
  operand makes every sum, difference and quotient by a finite number non-finite again,
  which are the only operations the code applies afterwards.
\<close>

type_synonym npfloat = "real option"

datatype exc =
    IndexError
  | ValueError
  | KeyError string
  | AttributeError
  | UnboundLocalError string
  | FileNotFoundError
  | StructError
  | Exception string
  | LibraryError string

definition np_div :: "npfloat \<Rightarrow> real \<Rightarrow> npfloat" where
  "np_div a y = (case a of None \<Rightarrow> None | Some x \<Rightarrow> if y = 0 then None else Some (x / y))"

definition np_neg :: "npfloat \<Rightarrow> npfloat" where
  "np_neg a = (case a of None \<Rightarrow> None | Some x \<Rightarrow> Some (- x))"

definition np_add :: "npfloat \<Rightarrow> npfloat \<Rightarrow> npfloat" where
  "np_add a b = (case a of None \<Rightarrow> None | Some x \<Rightarrow> (case b of None \<Rightarrow> None | Some y \<Rightarrow> Some (x + y)))"

definition np_sub :: "npfloat \<Rightarrow> npfloat \<Rightarrow> npfloat" where
  "np_sub a b = (case a of None \<Rightarrow> None | Some x \<Rightarrow> (case b of None \<Rightarrow> None | Some y \<Rightarrow> Some (x - y)))"

definition np_mul :: "real \<Rightarrow> npfloat \<Rightarrow> npfloat" where
  "np_mul c a = (case a of None \<Rightarrow> None | Some x \<Rightarrow> Some (c * x))"

definition np_sum :: "npfloat list \<Rightarrow> npfloat" where
  "np_sum xs = foldr np_add xs (Some 0)"

text \<open>\<^verbatim>\<open>np.mean\<close> of a non-empty one-dimensional array of finite values.\<close>

definition np_mean :: "real list \<Rightarrow> real" where
  "np_mean xs = sum_list xs / real (length xs)"

text \<open>\<^verbatim>\<open>sys.float_info.epsilon\<close> of IEEE double precision.\<close>

definition float_epsilon :: real where
  "float_epsilon = 1 / 2 ^ 52"

type_synonym vec3 = "real \<times> real \<times> real"

fun vsub :: "vec3 \<Rightarrow> vec3 \<Rightarrow> vec3" where
  "vsub (a1, a2, a3) (b1, b2, b3) = (a1 - b1, a2 - b2, a3 - b3)"

text \<open>\<^verbatim>\<open>np.sum(a*b, axis=1)\<close>, for one row.\<close>

fun rowdot :: "vec3 \<Rightarrow> vec3 \<Rightarrow> real" where
  "rowdot (a1, a2, a3) (b1, b2, b3) = a1 * b1 + a2 * b2 + a3 * b3"

text \<open>\<^verbatim>\<open>np.cross(a, b)\<close>, for one row.\<close>

fun cross :: "vec3 \<Rightarrow> vec3 \<Rightarrow> vec3" where
  "cross (a1, a2, a3) (b1, b2, b3) = (a2 * b3 - a3 * b2, a3 * b1 - a1 * b3, a1 * b2 - a2 * b1)"

text \<open>
  A scipy sparse matrix built from coordinate triples: its shape and the list of
  \<open>(row, column, value)\<close> triples in the order given. Triples at the same position
  accumulate: the entry at \<open>(i, j)\<close> is the sum of all values stored there, and \<open>0\<close> where
  nothing is stored.
\<close>

record sparse =
  nrows :: nat
  ncols :: nat
  coo :: "(nat \<times> nat \<times> npfloat) list"

text \<open>
  \<^verbatim>\<open>sparse.csc_matrix((data, (I, J)))\<close> with no shape argument: the three arrays must
  have one length, the shape is inferred as one more than the largest row and column
  index, and empty index arrays are refused.
\<close>

definition csc_matrix :: "npfloat list \<Rightarrow> nat list \<Rightarrow> nat list \<Rightarrow> exc + sparse" where
  "csc_matrix dat I J =
     (if length I \<noteq> length dat \<or> length J \<noteq> length dat then Inl ValueError
      else if dat = [] then Inl ValueError
      else Inr \<lparr>nrows = Suc (Max (set I)), ncols = Suc (Max (set J)), coo = zip I (zip J dat)\<rparr>)"

definition mat_get :: "sparse \<Rightarrow> nat \<Rightarrow> nat \<Rightarrow> npfloat" where
  "mat_get M i j = np_sum (map (\<lambda>(r, c, x). x) (filter (\<lambda>(r, c, x). r = i \<and> c = j) (coo M)))"

definition row_sum :: "sparse \<Rightarrow> nat \<Rightarrow> npfloat" where
  "row_sum M i = np_sum (map (mat_get M i) [0..<ncols M])"

section \<open>Triangle operator assembly: \<^verbatim>\<open>computeABtria\<close>\<close>

type_synonym tria = "nat \<times> nat \<times> nat"

text \<open>
  numpy evaluates every line of \<^verbatim>\<open>computeABtria\<close> on all triangles at once. Row \<open>k\<close> of
  each array depends on triangle \<open>k\<close> alone, and on \<^verbatim>\<open>vol_mean\<close>; the model computes the
  rows triangle by triangle and concatenates them, which is the order of
  \<^verbatim>\<open>column_stack(...).flatten()\<close>.
\<close>

text \<open>\<^verbatim>\<open>vol = 2 * np.sqrt(np.sum(cr*cr, axis=1))\<close>, four times the area.\<close>

definition tria_vol :: "vec3 list \<Rightarrow> tria \<Rightarrow> real" where
  "tria_vol v tr =
     (case tr of (t1, t2, t3) \<Rightarrow>
        let v1 = v ! t1; v2 = v ! t2; v3 = v ! t3;
            v3mv2 = vsub v3 v2;
            v1mv3 = vsub v1 v3;
            cr = cross v3mv2 v1mv3
        in 2 * sqrt (rowdot cr cr))"

text \<open>\<^verbatim>\<open>vol_mean = 0.0001*np.mean(vol); vol[vol<sys.float_info.epsilon] = vol_mean\<close>\<close>

definition tria_guard :: "real list \<Rightarrow> real list" where
  "tria_guard vol =
     (let vol_mean = 0.0001 * np_mean vol
      in map (\<lambda>x. if x < float_epsilon then vol_mean else x) vol)"

definition tria_localA :: "vec3 list \<Rightarrow> tria \<Rightarrow> real \<Rightarrow> npfloat list" where
  "tria_localA v tr vol =
     (case tr of (t1, t2, t3) \<Rightarrow>
        let v1 = v ! t1; v2 = v ! t2; v3 = v ! t3;
            v2mv1 = vsub v2 v1;
            v3mv2 = vsub v3 v2;
            v1mv3 = vsub v1 v3;
            A12 = np_div (Some (rowdot v3mv2 v1mv3)) vol;
            A23 = np_div (Some (rowdot v1mv3 v2mv1)) vol;
            A31 = np_div (Some (rowdot v2mv1 v3mv2)) vol;
            A11 = np_sub (np_neg A12) A31;
            A22 = np_sub (np_neg A12) A23;
            A33 = np_sub (np_neg A31) A23
        in [A12, A12, A23, A23, A31, A31, A11, A22, A33])"

fun tria_I :: "tria \<Rightarrow> nat list" where
  "tria_I (t1, t2, t3) = [t1, t2, t2, t3, t3, t1, t1, t2, t3]"

fun tria_J :: "tria \<Rightarrow> nat list" where
  "tria_J (t1, t2, t3) = [t2, t1, t3, t2, t1, t3, t1, t2, t3]"

text \<open>Non-lumped mass: \<^verbatim>\<open>Bii = vol / 24\<close>, \<^verbatim>\<open>Bij = vol / 48\<close>.\<close>

definition tria_localB :: "real \<Rightarrow> npfloat list" where
  "tria_localB vol =
     (let Bii = np_div (Some vol) 24;
          Bij = np_div (Some vol) 48
      in [Bij, Bij, Bij, Bij, Bij, Bij, Bii, Bii, Bii])"

text \<open>Lumped mass: \<^verbatim>\<open>Bii = vol / 12\<close> at \<^verbatim>\<open>(t1, t2, t3)\<close>, on the diagonal.\<close>

definition tria_localB_lump :: "real \<Rightarrow> npfloat list" where
  "tria_localB_lump vol = (let Bii = np_div (Some vol) 12 in [Bii, Bii, Bii])"

fun tria_I_lump :: "tria \<Rightarrow> nat list" where
  "tria_I_lump (t1, t2, t3) = [t1, t2, t3]"

text \<open>
  Indexing \<^verbatim>\<open>v[t1, :]\<close> raises \<^verbatim>\<open>IndexError\<close> on an index beyond the vertex array, and so
  does \<^verbatim>\<open>t[:, 0]\<close> on the one-dimensional array that an empty triangle list becomes.
  Indices are natural numbers, as the docstring asks (\<^verbatim>\<open>indices (>=0) into v array\<close>).
\<close>

fun tria_in_bounds :: "nat \<Rightarrow> tria \<Rightarrow> bool" where
  "tria_in_bounds n (t1, t2, t3) = (t1 < n \<and> t2 < n \<and> t3 < n)"

definition computeABtria :: "vec3 list \<Rightarrow> tria list \<Rightarrow> bool \<Rightarrow> exc + sparse \<times> sparse" where
  "computeABtria v t lump =
     (if t = [] then Inl IndexError
      else if \<not> list_all (tria_in_bounds (length v)) t then Inl IndexError
      else
        let vol = tria_guard (map (tria_vol v) t);
            localA = concat (map2 (tria_localA v) t vol);
            I = concat (map tria_I t);
            J = concat (map tria_J t)
        in case csc_matrix localA I J of
             Inl e \<Rightarrow> Inl e
           | Inr A \<Rightarrow>
               if \<not> lump then
                 (case csc_matrix (concat (map tria_localB vol)) I J of
                    Inl e \<Rightarrow> Inl e
                  | Inr B \<Rightarrow> Inr (A, B))
               else
                 (let I' = concat (map tria_I_lump t)
                  in case csc_matrix (concat (map tria_localB_lump vol)) I' I' of
                       Inl e \<Rightarrow> Inl e
                     | Inr B \<Rightarrow> Inr (A, B)))"

section \<open>Tetrahedral operator assembly: \<^verbatim>\<open>computeABtetra\<close>\<close>

type_synonym tetra = "nat \<times> nat \<times> nat \<times> nat"

text \<open>\<^verbatim>\<open>cr = np.cross(e1,e3); vol = np.abs(np.sum(e4*cr, axis=1))\<close>, six times the volume.\<close>

definition tetra_vol :: "vec3 list \<Rightarrow> tetra \<Rightarrow> real" where
  "tetra_vol v tr =
     (case tr of (t1, t2, t3, t4) \<Rightarrow>
        let v1 = v ! t1; v2 = v ! t2; v3 = v ! t3; v4 = v ! t4;
            e1 = vsub v2 v1;
            e3 = vsub v1 v3;
            e4 = vsub v4 v1;
            cr = cross e1 e3
        in \<bar>rowdot e4 cr\<bar>)"

text \<open>\<^verbatim>\<open>vol_mean = 0.0001*np.mean(vol); vol[vol==0] = vol_mean\<close>\<close>

definition tetra_guard :: "real list \<Rightarrow> real list" where
  "tetra_guard vol =
     (let vol_mean = 0.0001 * np_mean vol
      in map (\<lambda>x. if x = 0 then vol_mean else x) vol)"

text \<open>
  The sixteen values of one row of \<^verbatim>\<open>localA\<close>, after \<^verbatim>\<open>localA.flatten()/6.0\<close>.
\<close>

definition tetra_localA :: "vec3 list \<Rightarrow> tetra \<Rightarrow> real \<Rightarrow> npfloat list" where
  "tetra_localA v tr vol =
     (case tr of (t1, t2, t3, t4) \<Rightarrow>
        let v1 = v ! t1; v2 = v ! t2; v3 = v ! t3; v4 = v ! t4;
            e1 = vsub v2 v1;
            e2 = vsub v3 v2;
            e3 = vsub v1 v3;
            e4 = vsub v4 v1;
            e5 = vsub v4 v2;
            e6 = vsub v4 v3;
            e11 = rowdot e1 e1;
            e22 = rowdot e2 e2;
            e33 = rowdot e3 e3;
            e44 = rowdot e4 e4;
            e55 = rowdot e5 e5;
            e66 = rowdot e6 e6;
            e12 = rowdot e1 e2;
            e13 = rowdot e1 e3;
            e14 = rowdot e1 e4;
            e15 = rowdot e1 e5;
            e23 = rowdot e2 e3;
            e25 = rowdot e2 e5;
            e26 = rowdot e2 e6;
            e34 = rowdot e3 e4;
            e36 = rowdot e3 e6;
            A12 = np_div (Some (- e36 * e26 + e23 * e66)) vol;
            A13 = np_div (Some (- e15 * e25 + e12 * e55)) vol;
            A14 = np_div (Some (e23 * e26 - e36 * e22)) vol;
            A23 = np_div (Some (- e14 * e34 + e13 * e44)) vol;
            A24 = np_div (Some (e13 * e34 - e14 * e33)) vol;
            A34 = np_div (Some (- e14 * e13 + e11 * e34)) vol;
            A11 = np_sub (np_sub (np_neg A12) A13) A14;
            A22 = np_sub (np_sub (np_neg A12) A23) A24;
            A33 = np_sub (np_sub (np_neg A13) A23) A34;
            A44 = np_sub (np_sub (np_neg A14) A24) A34
        in map (\<lambda>a. np_div a 6)
             [A12, A12, A23, A23, A13, A13, A14, A14, A24, A24, A34, A34, A11, A22, A33, A44])"

fun tetra_I :: "tetra \<Rightarrow> nat list" where
  "tetra_I (t1, t2, t3, t4) =
     [t1, t2, t2, t3, t3, t1, t1, t4, t2, t4, t3, t4, t1, t2, t3, t4]"

fun tetra_J :: "tetra \<Rightarrow> nat list" where
  "tetra_J (t1, t2, t3, t4) =
     [t2, t1, t3, t2, t1, t3, t4, t1, t4, t2, t4, t3, t1, t2, t3, t4]"

text \<open>Non-lumped mass: \<^verbatim>\<open>Bii = vol / 60.0\<close>, \<^verbatim>\<open>Bij = vol / 120.0\<close>.\<close>

definition tetra_localB :: "real \<Rightarrow> npfloat list" where
  "tetra_localB vol =
     (let Bii = np_div (Some vol) 60;
          Bij = np_div (Some vol) 120
      in [Bij, Bij, Bij, Bij, Bij, Bij, Bij, Bij, Bij, Bij, Bij, Bij, Bii, Bii, Bii, Bii])"

text \<open>Lumped mass: \<^verbatim>\<open>Bii = vol / 24.0\<close> at \<^verbatim>\<open>(t1, t2, t3, t4)\<close>, on the diagonal.\<close>

definition tetra_localB_lump :: "real \<Rightarrow> npfloat list" where
  "tetra_localB_lump vol = (let Bii = np_div (Some vol) 24 in [Bii, Bii, Bii, Bii])"

fun tetra_I_lump :: "tetra \<Rightarrow> nat list" where
  "tetra_I_lump (t1, t2, t3, t4) = [t1, t2, t3, t4]"

fun tetra_in_bounds :: "nat \<Rightarrow> tetra \<Rightarrow> bool" where
  "tetra_in_bounds n (t1, t2, t3, t4) = (t1 < n \<and> t2 < n \<and> t3 < n \<and> t4 < n)"

definition computeABtetra :: "vec3 list \<Rightarrow> tetra list \<Rightarrow> bool \<Rightarrow> exc + sparse \<times> sparse" where
  "computeABtetra v t lump =
     (if t = [] then Inl IndexError
      else if \<not> list_all (tetra_in_bounds (length v)) t then Inl IndexError
      else
        let vol = tetra_guard (map (tetra_vol v) t);
            localA = concat (map2 (tetra_localA v) t vol);
            I = concat (map tetra_I t);
            J = concat (map tetra_J t)
        in case csc_matrix localA I J of
             Inl e \<Rightarrow> Inl e
           | Inr A \<Rightarrow>
               if \<not> lump then
                 (case csc_matrix (concat (map tetra_localB vol)) I J of
                    Inl e \<Rightarrow> Inl e
                  | Inr B \<Rightarrow> Inr (A, B))
               else
                 (let I' = concat (map tetra_I_lump t)
                  in case csc_matrix (concat (map tetra_localB_lump vol)) I' I' of
                       Inl e \<Rightarrow> Inl e
                     | Inr B \<Rightarrow> Inr (A, B)))"

section \<open>Notions used to state the properties\<close>

text \<open>The entry stored at the mirrored position, with the same value.\<close>

definition transpose_entry :: "nat \<times> nat \<times> npfloat \<Rightarrow> nat \<times> nat \<times> npfloat" where
  "transpose_entry e = (case e of (r, c, x) \<Rightarrow> (c, r, x))"

text \<open>
  A mesh the assembly accepts: at least one cell, and every index of every cell within
  the vertex array.
\<close>

definition tria_mesh :: "vec3 list \<Rightarrow> tria list \<Rightarrow> bool" where
  "tria_mesh v t = (t \<noteq> [] \<and> list_all (tria_in_bounds (length v)) t)"

definition tetra_mesh :: "vec3 list \<Rightarrow> tetra list \<Rightarrow> bool" where
  "tetra_mesh v t = (t \<noteq> [] \<and> list_all (tetra_in_bounds (length v)) t)"

text \<open>
  The scheme of the spec for the off-diagonal stiffness entry of an edge \<open>(i, j)\<close> of a
  tetrahedron, in the spec's words: with \<open>Ek\<close> the opposing edge and \<open>El\<close>, \<open>Em\<close> the
  edges from the start point of \<open>Ek\<close> to the points \<open>i\<close> and \<open>j\<close>, the entry is
  \<open>(El \<cdot> Ek) (Em \<cdot> Ek) - (El \<cdot> Em) (Ek \<cdot> Ek)\<close>, scaled by \<open>1 / (6 * volume proxy)\<close>.
  In \<open>opp_entry p q r s w\<close> the edge is \<open>(p, q)\<close>, the opposing edge runs from \<open>r\<close> to \<open>s\<close>
  and \<open>w\<close> is the volume proxy.
\<close>

definition edge_scheme :: "vec3 \<Rightarrow> vec3 \<Rightarrow> vec3 \<Rightarrow> real" where
  "edge_scheme El Em Ek = rowdot El Ek * rowdot Em Ek - rowdot El Em * rowdot Ek Ek"

definition opp_entry :: "vec3 \<Rightarrow> vec3 \<Rightarrow> vec3 \<Rightarrow> vec3 \<Rightarrow> real \<Rightarrow> real" where
  "opp_entry p q r s w = edge_scheme (vsub p r) (vsub q r) (vsub s r) / (6 * w)"

section \<open>Solver entry points: \<^verbatim>\<open>laplaceTria\<close> and \<^verbatim>\<open>laplaceTetra\<close>\<close>

text \<open>\<^verbatim>\<open>sigma*M\<close>: every stored value is scaled.\<close>

definition mat_scale :: "real \<Rightarrow> sparse \<Rightarrow> sparse" where
  "mat_scale s M = M\<lparr>coo := map (\<lambda>(r, c, x). (r, c, np_mul s x)) (coo M)\<rparr>"

text \<open>
  \<^verbatim>\<open>A - B\<close> on sparse matrices: scipy raises \<^verbatim>\<open>ValueError\<close> (inconsistent shapes) unless the
  shapes agree; the entry at \<open>(i, j)\<close> of the difference is the entry of \<open>A\<close> minus the entry
  of \<open>B\<close>.
\<close>

definition mat_sub :: "sparse \<Rightarrow> sparse \<Rightarrow> exc + sparse" where
  "mat_sub A B =
     (if nrows A = nrows B \<and> ncols A = ncols B
      then Inr (A\<lparr>coo := coo A @ map (\<lambda>(r, c, x). (r, c, np_neg x)) (coo B)\<rparr>)
      else Inl ValueError)"

text \<open>
  The numerical libraries the entry points call are not part of the repository; they are
  parameters of the model. \<open>cholesky\<close> is \<^verbatim>\<open>sksparse.cholmod.cholesky\<close>, \<open>None\<close> when the import
  raises \<^verbatim>\<open>ImportError\<close>; \<open>splu\<close> and \<open>eigsh\<close> are those of \<^verbatim>\<open>scipy.sparse.linalg\<close>. A
  factorization returns the operator that \<^verbatim>\<open>LinearOperator(matvec=...)\<close> wraps, of a type
  \<open>'op\<close> left open, or raises; \<open>eigsh\<close> returns the pair of eigenvalues and eigenvectors, of
  a type \<open>'res\<close> left open, or raises.
\<close>

record ('op, 'res) solvers =
  cholesky :: "(sparse \<Rightarrow> exc + 'op) option"
  splu :: "sparse \<Rightarrow> exc + 'op"
  eigsh :: "sparse \<Rightarrow> int \<Rightarrow> sparse \<Rightarrow> real \<Rightarrow> 'op \<Rightarrow> exc + 'res"

text \<open>What a run does besides returning: the lines it prints and the library calls it makes, in order.\<close>

datatype event =
    Print string
  | Call_cholesky sparse
  | Call_splu sparse
  | Call_eigsh sparse int sparse real

text \<open>
  The body that \<^verbatim>\<open>laplaceTria\<close> and \<^verbatim>\<open>laplaceTetra\<close> share, from the choice of the solver
  on; \<open>AM\<close> is the outcome of the assembly call \<^verbatim>\<open>A, M = computeAB...(v,t,lump=lump)\<close>, which
  runs after the solver is announced.
\<close>

definition solver_banner :: "bool \<Rightarrow> event list" where
  "solver_banner useCholmod =
     (if useCholmod then [Print ''Solver: cholesky decomp - performance optimal ...'']
      else [Print ''Package scikit-sparse not found (Cholesky decomp)'',
            Print ''Solver: spsolve (LU decomp) - performance not optimal ...''])"

definition laplace_solve ::
  "('op, 'res) solvers \<Rightarrow> exc + sparse \<times> sparse \<Rightarrow> int \<Rightarrow> event list \<times> (exc + 'res)" where
  "laplace_solve env AM k =
     (let useCholmod = (cholesky env \<noteq> None);
          out = solver_banner useCholmod
      in case AM of
           Inl e \<Rightarrow> (out, Inl e)
         | Inr (A, M) \<Rightarrow>
             let sigma = - 0.01 in
             (case mat_sub A (mat_scale sigma M) of
                Inl e \<Rightarrow> (out, Inl e)
              | Inr S \<Rightarrow>
                  (case cholesky env of
                     Some chol \<Rightarrow>
                       (case chol S of
                          Inl e \<Rightarrow> (out @ [Call_cholesky S], Inl e)
                        | Inr OPinv \<Rightarrow>
                            (out @ [Call_cholesky S, Call_eigsh A k M sigma],
                             eigsh env A k M sigma OPinv))
                   | None \<Rightarrow>
                       (case splu env S of
                          Inl e \<Rightarrow> (out @ [Call_splu S], Inl e)
                        | Inr OPinv \<Rightarrow>
                            (out @ [Call_splu S, Call_eigsh A k M sigma],
                             eigsh env A k M sigma OPinv)))))"

definition laplaceTria ::
  "('op, 'res) solvers \<Rightarrow> vec3 list \<Rightarrow> tria list \<Rightarrow> int \<Rightarrow> bool \<Rightarrow> event list \<times> (exc + 'res)" where
  "laplaceTria env v t k lump = laplace_solve env (computeABtria v t lump) k"

definition laplaceTetra ::
  "('op, 'res) solvers \<Rightarrow> vec3 list \<Rightarrow> tetra list \<Rightarrow> int \<Rightarrow> bool \<Rightarrow> event list \<times> (exc + 'res)" where
  "laplaceTetra env v t k lump = laplace_solve env (computeABtetra v t lump) k"

text \<open>The factorization call of a run on the shifted matrix \<open>S\<close>, and what it returns.\<close>

definition factor_call :: "('op, 'res) solvers \<Rightarrow> sparse \<Rightarrow> event" where
  "factor_call env S = (case cholesky env of Some chol \<Rightarrow> Call_cholesky S | None \<Rightarrow> Call_splu S)"

definition factor :: "('op, 'res) solvers \<Rightarrow> sparse \<Rightarrow> exc + 'op" where
  "factor env S = (case cholesky env of Some chol \<Rightarrow> chol S | None \<Rightarrow> splu env S)"

text \<open>
  An environment for the examples: no \<^verbatim>\<open>sksparse\<close>, an LU factorization that succeeds, and
  an \<open>eigsh\<close> that refuses \<open>k \<ge> N\<close> for the \<open>N \<times> N\<close> matrix \<open>A\<close> with a \<^verbatim>\<open>TypeError\<close>, as scipy's
  does for a sparse \<open>A\<close>.
\<close>

definition lu_env :: "(unit, int) solvers" where
  "lu_env = \<lparr>cholesky = None, splu = (\<lambda>S. Inr ()),
             eigsh = (\<lambda>A k M sigma OPinv. if int (nrows A) \<le> k then Inl (LibraryError ''TypeError'') else Inr k)\<rparr>"



section \<open>Reader of the binary volume format: \<^verbatim>\<open>importMGH\<close>\<close>

type_synonym byte = "8 word"

text \<open>Sequencing of steps that may raise.\<close>

definition bind_exc :: "exc + 'a \<Rightarrow> ('a \<Rightarrow> exc + 'b) \<Rightarrow> exc + 'b" where
  "bind_exc m f = (case m of Inl e \<Rightarrow> Inl e | Inr x \<Rightarrow> f x)"

text \<open>
  \<^verbatim>\<open>struct.unpack(fmt, fp.read(n))\<close> on the rest of the file: \<^verbatim>\<open>fp.read(n)\<close> returns at most
  \<open>n\<close> bytes, and \<^verbatim>\<open>struct.unpack\<close> raises \<^verbatim>\<open>struct.error\<close> unless it is given exactly the
  \<open>n\<close> bytes of its format. The result is the bytes read and the rest of the file.
\<close>

definition read_unpack :: "nat \<Rightarrow> byte list \<Rightarrow> exc + byte list \<times> byte list" where
  "read_unpack n rest = (if n \<le> length rest then Inr (take n rest, drop n rest) else Inl StructError)"

text \<open>A big-endian two's complement integer (formats \<^verbatim>\<open>>i\<close>, \<^verbatim>\<open>>h\<close>).\<close>

definition be_sint :: "byte list \<Rightarrow> int" where
  "be_sint bs =
     (let u = foldl (\<lambda>a b. a * 256 + uint b) 0 bs;
          n = 2 ^ (8 * length bs)
      in if n \<le> 2 * u then u - n else u)"

definition read_int :: "nat \<Rightarrow> byte list \<Rightarrow> exc + int \<times> byte list" where
  "read_int n rest = bind_exc (read_unpack n rest) (\<lambda>(bs, rest'). Inr (be_sint bs, rest'))"

text \<open>\<^verbatim>\<open>for i in range(n): struct.unpack(">b", fp.read(charsize))[0]\<close>\<close>

fun skip_chars :: "nat \<Rightarrow> byte list \<Rightarrow> exc + byte list" where
  "skip_chars 0 rest = Inr rest"
| "skip_chars (Suc n) rest = bind_exc (read_unpack 1 rest) (\<lambda>(bs, rest'). skip_chars n rest')"

text \<open>
  numpy is outside the repository: the two array steps are parameters. \<open>frombuffer_f32\<close>
  is \<^verbatim>\<open>numpy.frombuffer(buf, dtype=numpy.float32).byteswap()\<close>, \<open>reshape_squeeze\<close> is
  \<^verbatim>\<open>numpy.squeeze(numpy.reshape(vol, (ndim1, ndim2, ndim3, nframes), order="F"))\<close>; both may
  raise.
\<close>

record 'arr numpy =
  frombuffer_f32 :: "byte list \<Rightarrow> exc + 'arr"
  reshape_squeeze :: "'arr \<Rightarrow> int \<times> int \<times> int \<times> int \<Rightarrow> exc + 'arr"

text \<open>What \<^verbatim>\<open>importMGH\<close> returns: the sentinel \<^verbatim>\<open>numpy.nan\<close>, or the volume.\<close>

datatype 'arr mgh = NaN | Volume 'arr

text \<open>The part of \<^verbatim>\<open>importMGH\<close> that runs on the bytes of a file that exists.\<close>

definition read_mgh :: "'arr numpy \<Rightarrow> byte list \<Rightarrow> exc + 'arr mgh" where
  "read_mgh np fp =
     bind_exc (read_int 4 fp) (\<lambda>(v, fp).
     bind_exc (read_int 4 fp) (\<lambda>(ndim1, fp).
     bind_exc (read_int 4 fp) (\<lambda>(ndim2, fp).
     bind_exc (read_int 4 fp) (\<lambda>(ndim3, fp).
     bind_exc (read_int 4 fp) (\<lambda>(nframes, fp).
     bind_exc (read_int 4 fp) (\<lambda>(vtype, fp).
     bind_exc (read_int 4 fp) (\<lambda>(dof, fp).
     let UNUSED_SPACE_SIZE = 256 :: nat;
         USED_SPACE_SIZE = (3 * 4) + (4 * 3 * 4);
         unused_space_size = UNUSED_SPACE_SIZE - 2
     in
     bind_exc (read_int 2 fp) (\<lambda>(ras_good_flag, fp).
     bind_exc (if ras_good_flag \<noteq> 0
               then bind_exc (read_unpack (4 * 3) fp) (\<lambda>(delta, fp).
                    bind_exc (read_unpack (4 * 9) fp) (\<lambda>(Mdc, fp).
                    bind_exc (read_unpack (4 * 3) fp) (\<lambda>(Pxyz_c, fp). Inr fp)))
               else Inr fp) (\<lambda>fp.
     let unused_space_size = unused_space_size - USED_SPACE_SIZE in
     bind_exc (skip_chars unused_space_size fp) (\<lambda>fp.
     let nv = ndim1 * ndim2 * ndim3 * nframes;
         buf = (if 4 * nv < 0 then fp else take (nat (4 * nv)) fp)
     in
     bind_exc (frombuffer_f32 np buf) (\<lambda>vol.
     bind_exc (reshape_squeeze np vol (ndim1, ndim2, ndim3, nframes)) (\<lambda>vol.
     Inr (Volume vol)))))))))))))"

text \<open>
  The file system is a map from paths to the bytes of the file there; a path outside its
  domain does not exist (\<^verbatim>\<open>os.path.exists\<close> is false). The result is the list of warnings
  issued (\<^verbatim>\<open>warnings.warn\<close>, routed to the log by \<^verbatim>\<open>logging.captureWarnings(True)\<close>) and
  the value returned or exception raised.
\<close>

definition importMGH ::
  "'arr numpy \<Rightarrow> (string \<rightharpoonup> byte list) \<Rightarrow> string \<Rightarrow> string list \<times> (exc + 'arr mgh)" where
  "importMGH np fs filename =
     (case fs filename of
        None \<Rightarrow> ([''WARNING: could not find '' @ filename @ '', returning NaNs''], Inr NaN)
      | Some fp \<Rightarrow> ([], read_mgh np fp))"

text \<open>An instance of the array steps, for the examples: the array is the list of its bytes.\<close>

definition bytes_numpy :: "byte list numpy" where
  "bytes_numpy = \<lparr>frombuffer_f32 = (\<lambda>buf. if length buf mod 4 = 0 then Inr buf else Inl ValueError),
                  reshape_squeeze = (\<lambda>vol shape. Inr vol)\<rparr>"

section \<open>Reader of affine-transform files: \<^verbatim>\<open>readLTA\<close> and \<^verbatim>\<open>applyTransform\<close>\<close>

text \<open>
  Lines are strings of ASCII characters. The character classes are those of Python's
  \<^verbatim>\<open>re\<close> and \<^verbatim>\<open>str\<close> on ASCII text: whitespace (\<^verbatim>\<open>\s\<close>, \<^verbatim>\<open>str.strip\<close>), word characters
  (\<^verbatim>\<open>\w\<close>), digits and lower-case letters.
\<close>

definition is_space :: "char \<Rightarrow> bool" where
  "is_space c = (let n = of_char c :: nat in (9 \<le> n \<and> n \<le> 13) \<or> (28 \<le> n \<and> n \<le> 32))"

definition is_digit :: "char \<Rightarrow> bool" where
  "is_digit c = (let n = of_char c :: nat in 48 \<le> n \<and> n \<le> 57)"

definition is_lower :: "char \<Rightarrow> bool" where
  "is_lower c = (let n = of_char c :: nat in 97 \<le> n \<and> n \<le> 122)"

definition is_word :: "char \<Rightarrow> bool" where
  "is_word c = (let n = of_char c :: nat in
      (48 \<le> n \<and> n \<le> 57) \<or> (65 \<le> n \<and> n \<le> 90) \<or> (97 \<le> n \<and> n \<le> 122) \<or> n = 95)"

text \<open>\<^verbatim>\<open>s.strip()\<close>\<close>

definition strip :: "string \<Rightarrow> string" where
  "strip s = rev (dropWhile is_space (rev (dropWhile is_space s)))"

text \<open>\<^verbatim>\<open>re.match(p, s) is not None\<close> for a pattern \<open>p\<close> of plain characters: \<open>s\<close> starts with \<open>p\<close>.\<close>

definition re_match_lit :: "string \<Rightarrow> string \<Rightarrow> bool" where
  "re_match_lit p s = (take (length p) s = p)"

text \<open>
  \<^verbatim>\<open>re.sub("#.*", "", s)\<close>: from each \<^verbatim>\<open>#\<close> to the end of its line (the dot does not match a
  newline). The flag says whether the scan is inside such a match.
\<close>

fun sub_comment :: "bool \<Rightarrow> string \<Rightarrow> string" where
  "sub_comment incomment [] = []"
| "sub_comment True (c # cs) =
     (if c = CHR 0x0A then c # sub_comment False cs else sub_comment True cs)"
| "sub_comment False (c # cs) =
     (if c = CHR ''#'' then sub_comment True cs else c # sub_comment False cs)"

text \<open>\<^verbatim>\<open>re.sub("[a-z]+", "", s)\<close> and \<^verbatim>\<open>re.sub("=", "", s)\<close>\<close>

definition sub_lower :: "string \<Rightarrow> string" where
  "sub_lower s = filter (\<lambda>c. \<not> is_lower c) s"

definition sub_eq :: "string \<Rightarrow> string" where
  "sub_eq s = filter (\<lambda>c. c \<noteq> CHR ''='') s"

text \<open>
  \<^verbatim>\<open>re.sub(".*=", "", s)\<close>: on each line, everything up to its last \<^verbatim>\<open>=\<close>. \<open>seg\<close> holds, in
  reverse, what is kept of the current line so far.
\<close>

fun sub_upto_eq :: "string \<Rightarrow> string \<Rightarrow> string" where
  "sub_upto_eq seg [] = rev seg"
| "sub_upto_eq seg (c # cs) =
     (if c = CHR 0x0A then rev seg @ c # sub_upto_eq [] cs
      else if c = CHR ''='' then sub_upto_eq [] cs
      else sub_upto_eq (c # seg) cs)"

text \<open>
  \<^verbatim>\<open>re.split(" +", s)\<close>: the pieces between runs of blanks. \<open>inrun\<close> says whether the scan is
  inside a run, \<open>cur\<close> holds the current piece in reverse.
\<close>

fun re_split_blanks :: "bool \<Rightarrow> string \<Rightarrow> string \<Rightarrow> string list" where
  "re_split_blanks inrun cur [] = [rev cur]"
| "re_split_blanks inrun cur (c # cs) =
     (if c = CHR '' '' then
        (if inrun then re_split_blanks True cur cs else rev cur # re_split_blanks True [] cs)
      else re_split_blanks False (c # cur) cs)"

text \<open>
  The pattern of a matrix row, \<^verbatim>\<open>-*[0-9]\.\S+\W+\<close> four times, as a regular expression
  over character classes, matched by derivatives: \<^verbatim>\<open>re.match\<close> succeeds when some prefix of
  the line is in the language.
\<close>

datatype cclass = CDash | CDigit | CDot | CNonSpace | CNonWord

fun in_class :: "cclass \<Rightarrow> char \<Rightarrow> bool" where
  "in_class CDash c = (c = CHR ''-'')"
| "in_class CDigit c = is_digit c"
| "in_class CDot c = (c = CHR ''.'')"
| "in_class CNonSpace c = (\<not> is_space c)"
| "in_class CNonWord c = (\<not> is_word c)"

datatype rx = Zero | One | Atom cclass | Alt rx rx | Seq rx rx | Star rx

fun nullable :: "rx \<Rightarrow> bool" where
  "nullable Zero = False"
| "nullable One = True"
| "nullable (Atom a) = False"
| "nullable (Alt r s) = (nullable r \<or> nullable s)"
| "nullable (Seq r s) = (nullable r \<and> nullable s)"
| "nullable (Star r) = True"

fun mk_alt :: "rx \<Rightarrow> rx \<Rightarrow> rx" where
  "mk_alt Zero s = s"
| "mk_alt r Zero = r"
| "mk_alt r s = Alt r s"

fun mk_seq :: "rx \<Rightarrow> rx \<Rightarrow> rx" where
  "mk_seq Zero s = Zero"
| "mk_seq One s = s"
| "mk_seq r s = Seq r s"

fun deriv :: "char \<Rightarrow> rx \<Rightarrow> rx" where
  "deriv c Zero = Zero"
| "deriv c One = Zero"
| "deriv c (Atom a) = (if in_class a c then One else Zero)"
| "deriv c (Alt r s) = mk_alt (deriv c r) (deriv c s)"
| "deriv c (Seq r s) =
     (if nullable r then mk_alt (mk_seq (deriv c r) s) (deriv c s) else mk_seq (deriv c r) s)"
| "deriv c (Star r) = mk_seq (deriv c r) (Star r)"

fun rx_match :: "rx \<Rightarrow> string \<Rightarrow> bool" where
  "rx_match r [] = nullable r"
| "rx_match r (c # cs) = (if nullable r then True else rx_match (deriv c r) cs)"

definition rx_plus :: "cclass \<Rightarrow> rx" where
  "rx_plus a = Seq (Atom a) (Star (Atom a))"

definition row_field :: rx where
  "row_field = Seq (Star (Atom CDash)) (Seq (Atom CDigit) (Seq (Atom CDot)
                 (Seq (rx_plus CNonSpace) (rx_plus CNonWord))))"

definition row_pattern :: rx where
  "row_pattern = Seq row_field (Seq row_field (Seq row_field row_field))"

text \<open>
  The values of the dictionary that \<^verbatim>\<open>readLTA\<close> builds, and the dictionary. Floats are
  reals; the conversions \<^verbatim>\<open>int(...)\<close> and \<^verbatim>\<open>float(...)\<close> of the interpreter are parameters,
  as they raise \<^verbatim>\<open>ValueError\<close> on text that is no number.
\<close>

datatype ltaval =
    VInt int
  | VFloat real
  | VInts "int list"
  | VFloats "real list"
  | VStrs "string list"
  | VMat "real list list"

type_synonym ltadict = "string \<rightharpoonup> ltaval"

record builtins =
  py_int :: "string \<Rightarrow> exc + int"
  py_float :: "string \<Rightarrow> exc + real"

text \<open>A list comprehension \<^verbatim>\<open>[f(x) for x in xs]\<close> in which \<open>f\<close> may raise.\<close>

fun map_exc :: "('a \<Rightarrow> exc + 'b) \<Rightarrow> 'a list \<Rightarrow> exc + 'b list" where
  "map_exc f [] = Inr []"
| "map_exc f (x # xs) =
     (case f x of
        Inl e \<Rightarrow> Inl e
      | Inr y \<Rightarrow> (case map_exc f xs of Inl e \<Rightarrow> Inl e | Inr ys \<Rightarrow> Inr (y # ys)))"

text \<open>
  \<^verbatim>\<open>re.sub("=", "", re.sub("[a-z]+", "", re.sub("#.*", "", line))).strip()\<close> and
  \<^verbatim>\<open>re.sub(".*=", "", re.sub("#.*", "", line)).strip()\<close>
\<close>

definition field_text :: "string \<Rightarrow> string" where
  "field_text line = strip (sub_eq (sub_lower (sub_comment False line)))"

definition value_text :: "string \<Rightarrow> string" where
  "value_text line = strip (sub_upto_eq [] (sub_comment False line))"

text \<open>
  One pass of the body of the inner loops over a \<^verbatim>\<open>src volume info\<close> or
  \<^verbatim>\<open>dst volume info\<close> block; \<open>pre\<close> is \<^verbatim>\<open>src_\<close> or \<^verbatim>\<open>dst_\<close>.
\<close>

definition volume_info_line :: "builtins \<Rightarrow> string \<Rightarrow> string \<Rightarrow> ltadict \<Rightarrow> exc + ltadict" where
  "volume_info_line bi pre line d =
     (if re_match_lit ''valid'' line then
        (case py_int bi (value_text line) of
           Inl e \<Rightarrow> Inl e | Inr n \<Rightarrow> Inr (d(pre @ ''valid'' \<mapsto> VInt n)))
      else if re_match_lit ''filename'' line then
        Inr (d(pre @ ''filename'' \<mapsto> VStrs (re_split_blanks False [] (value_text line))))
      else if re_match_lit ''volume'' line then
        (case map_exc (py_int bi) (re_split_blanks False [] (value_text line)) of
           Inl e \<Rightarrow> Inl e | Inr ns \<Rightarrow> Inr (d(pre @ ''volume'' \<mapsto> VInts ns)))
      else if re_match_lit ''voxelsize'' line then
        (case map_exc (py_float bi) (re_split_blanks False [] (value_text line)) of
           Inl e \<Rightarrow> Inl e | Inr xs \<Rightarrow> Inr (d(pre @ ''voxelsize'' \<mapsto> VFloats xs)))
      else if re_match_lit ''xras'' line then
        (case map_exc (py_float bi) (re_split_blanks False [] (value_text line)) of
           Inl e \<Rightarrow> Inl e | Inr xs \<Rightarrow> Inr (d(pre @ ''xras'' \<mapsto> VFloats xs)))
      else if re_match_lit ''yras'' line then
        (case map_exc (py_float bi) (re_split_blanks False [] (value_text line)) of
           Inl e \<Rightarrow> Inl e | Inr xs \<Rightarrow> Inr (d(pre @ ''yras'' \<mapsto> VFloats xs)))
      else if re_match_lit ''zras'' line then
        (case map_exc (py_float bi) (re_split_blanks False [] (value_text line)) of
           Inl e \<Rightarrow> Inl e | Inr xs \<Rightarrow> Inr (d(pre @ ''zras'' \<mapsto> VFloats xs)))
      else if re_match_lit ''cras'' line then
        (case map_exc (py_float bi) (re_split_blanks False [] (value_text line)) of
           Inl e \<Rightarrow> Inl e | Inr xs \<Rightarrow> Inr (d(pre @ ''cras'' \<mapsto> VFloats xs)))
      else Inr d)"

text \<open>
  One row of the \<open>4 \<times> 4\<close> block: \<^verbatim>\<open>re.match(pattern, line).string.strip()\<close>, split at
  blanks, each piece converted by \<^verbatim>\<open>float\<close>. \<^verbatim>\<open>.string\<close> is the whole line; on a line that
  does not match, \<^verbatim>\<open>re.match\<close> is \<^verbatim>\<open>None\<close> and the attribute access raises.
\<close>

definition matrix_row :: "builtins \<Rightarrow> string \<Rightarrow> exc + real list" where
  "matrix_row bi line =
     (if rx_match row_pattern line
      then map_exc (py_float bi) (re_split_blanks False [] (strip line))
      else Inl AttributeError)"

text \<open>The rows \<^verbatim>\<open>lta[i]\<close> to \<^verbatim>\<open>lta[i + 3]\<close>; a line beyond the end is an \<^verbatim>\<open>IndexError\<close>.\<close>

definition matrix_rows :: "builtins \<Rightarrow> string list \<Rightarrow> exc + real list list" where
  "matrix_rows bi lta =
     map_exc (\<lambda>j. if j < length lta then matrix_row bi (lta ! j) else Inl IndexError) [0, 1, 2, 3]"

text \<open>
  The \<^verbatim>\<open>while i < len(lta)\<close> loop of \<^verbatim>\<open>readLTA\<close>, on the lines from \<open>i\<close> on. In mode \<open>Top\<close> it
  runs the outer \<^verbatim>\<open>if\<close>/\<^verbatim>\<open>elif\<close> chain; in mode \<open>Src\<close> (\<open>Dst\<close>) it is inside the inner loop
  of a \<^verbatim>\<open>src volume info\<close> (\<^verbatim>\<open>dst volume info\<close>) block, which ends, without consuming the
  line, at a line that starts the other block.
\<close>

datatype mode = Top | Src | Dst

function readLTA_loop :: "builtins \<Rightarrow> mode \<Rightarrow> string list \<Rightarrow> ltadict \<Rightarrow> exc + ltadict" where
  "readLTA_loop bi m [] d = Inr d"
| "readLTA_loop bi Top (l # ls) d =
     (if re_match_lit ''type'' l then
        (case py_int bi (field_text l) of
           Inl e \<Rightarrow> Inl e
         | Inr n \<Rightarrow> readLTA_loop bi Top ls (d(''type'' \<mapsto> VInt n)))
      else if re_match_lit ''nxforms'' l then
        (case py_int bi (field_text l) of
           Inl e \<Rightarrow> Inl e
         | Inr n \<Rightarrow> readLTA_loop bi Top ls (d(''nxforms'' \<mapsto> VInt n)))
      else if re_match_lit ''mean'' l then
        (case map_exc (py_float bi) (re_split_blanks False [] (field_text l)) of
           Inl e \<Rightarrow> Inl e
         | Inr xs \<Rightarrow> readLTA_loop bi Top ls (d(''mean'' \<mapsto> VFloats xs)))
      else if re_match_lit ''sigma'' l then
        (case py_float bi (field_text l) of
           Inl e \<Rightarrow> Inl e
         | Inr x \<Rightarrow> readLTA_loop bi Top ls (d(''sigma'' \<mapsto> VFloat x)))
      else if rx_match row_pattern l then
        (case matrix_rows bi (l # ls) of
           Inl e \<Rightarrow> Inl e
         | Inr rows \<Rightarrow> readLTA_loop bi Top (drop 3 ls) (d(''lta'' \<mapsto> VMat rows)))
      else if re_match_lit ''src volume info'' l then
        (case volume_info_line bi ''src_'' l d of
           Inl e \<Rightarrow> Inl e
         | Inr d' \<Rightarrow> readLTA_loop bi Src ls d')
      else if re_match_lit ''dst volume info'' l then
        (case volume_info_line bi ''dst_'' l d of
           Inl e \<Rightarrow> Inl e
         | Inr d' \<Rightarrow> readLTA_loop bi Dst ls d')
      else readLTA_loop bi Top ls d)"
| "readLTA_loop bi Src (l # ls) d =
     (if re_match_lit ''dst volume info'' l then readLTA_loop bi Top (l # ls) d
      else
        (case volume_info_line bi ''src_'' l d of
           Inl e \<Rightarrow> Inl e
         | Inr d' \<Rightarrow> readLTA_loop bi Src ls d'))"
| "readLTA_loop bi Dst (l # ls) d =
     (if re_match_lit ''src volume info'' l then readLTA_loop bi Top (l # ls) d
      else
        (case volume_info_line bi ''dst_'' l d of
           Inl e \<Rightarrow> Inl e
         | Inr d' \<Rightarrow> readLTA_loop bi Dst ls d'))"
  by pat_completeness auto
termination
  by (relation "measure (\<lambda>(bi, m, ls, d). 2 * length ls + (if m = Top then 0 else 1))") auto


text \<open>
  The \<open>4 \<times> 4\<close> matrix \<^verbatim>\<open>d["src"]\<close> (\<^verbatim>\<open>d["dst"]\<close>): the lists \<^verbatim>\<open>xras\<close>, \<^verbatim>\<open>yras\<close>, \<^verbatim>\<open>zras\<close>,
  \<^verbatim>\<open>cras\<close> as columns (\<^verbatim>\<open>np.c_\<close>, joined along axis 1, which needs one length), above the
  row \<^verbatim>\<open>[0, 0, 0, 1]\<close>. A key that was never assigned is a \<^verbatim>\<open>KeyError\<close>.
\<close>

definition get_floats :: "ltadict \<Rightarrow> string \<Rightarrow> exc + real list" where
  "get_floats d key =
     (case d key of
        None \<Rightarrow> Inl (KeyError key)
      | Some (VFloats xs) \<Rightarrow> Inr xs
      | Some other \<Rightarrow> Inl ValueError)"

definition full_matrix :: "ltadict \<Rightarrow> string \<Rightarrow> exc + ltaval" where
  "full_matrix d pre =
     (case get_floats d (pre @ ''xras'') of Inl e \<Rightarrow> Inl e | Inr xs \<Rightarrow>
     (case get_floats d (pre @ ''yras'') of Inl e \<Rightarrow> Inl e | Inr ys \<Rightarrow>
     (case get_floats d (pre @ ''zras'') of Inl e \<Rightarrow> Inl e | Inr zs \<Rightarrow>
     (case get_floats d (pre @ ''cras'') of Inl e \<Rightarrow> Inl e | Inr cs \<Rightarrow>
        if length ys = length xs \<and> length zs = length xs \<and> length cs = length xs
        then Inr (VMat (map (\<lambda>i. [xs ! i, ys ! i, zs ! i, cs ! i]) [0..<length xs] @ [[0, 0, 0, 1]]))
        else Inl ValueError))))"

text \<open>
  \<^verbatim>\<open>readLTA\<close>. The file system gives, for a path that exists, the list of lines that
  \<^verbatim>\<open>f.readlines()\<close> returns.
\<close>

definition readLTA :: "builtins \<Rightarrow> (string \<rightharpoonup> string list) \<Rightarrow> string \<Rightarrow> exc + ltadict" where
  "readLTA bi fs file =
     (case fs file of
        None \<Rightarrow> Inl FileNotFoundError
      | Some lta \<Rightarrow>
          (case readLTA_loop bi Top lta Map.empty of
             Inl e \<Rightarrow> Inl e
           | Inr d \<Rightarrow>
               (case full_matrix d ''src_'' of
                  Inl e \<Rightarrow> Inl e
                | Inr src \<Rightarrow>
                    (let d = d(''src'' \<mapsto> src) in
                     case full_matrix d ''dst_'' of
                       Inl e \<Rightarrow> Inl e
                     | Inr dst \<Rightarrow> Inr (d(''dst'' \<mapsto> dst))))))"

text \<open>
  The extension that \<^verbatim>\<open>os.path.splitext\<close> returns: from the last dot of the last path
  component on, when a character other than a dot stands before that dot in the
  component; empty otherwise.
\<close>

definition splitext_ext :: "string \<Rightarrow> string" where
  "splitext_ext p =
     (let name = rev (takeWhile (\<lambda>c. c \<noteq> CHR ''/'') (rev p));
          ext = rev (takeWhile (\<lambda>c. c \<noteq> CHR ''.'') (rev name));
          stem = rev (drop 1 (dropWhile (\<lambda>c. c \<noteq> CHR ''.'') (rev name)))
      in if CHR ''.'' \<in> set name \<and> filter (\<lambda>c. c \<noteq> CHR ''.'') stem \<noteq> []
         then CHR ''.'' # ext else [])"

text \<open>
  \<^verbatim>\<open>nibabel\<close>, \<^verbatim>\<open>scipy.ndimage\<close> and \<^verbatim>\<open>numpy.linalg\<close> are outside the repository and are
  parameters: \<open>nb_load\<close> is \<^verbatim>\<open>nb.load(img_file)\<close> with \<^verbatim>\<open>get_fdata()\<close>; \<open>affine_transform\<close> is
  \<^verbatim>\<open>ndimage.affine_transform(img_data, np.linalg.inv(m), order=...)\<close> made an image with the
  affine of the input; \<open>nb_save\<close> is \<^verbatim>\<open>nb.save\<close>, which writes the output file. Each may
  raise.
\<close>

record 'img imaging =
  nb_load :: "string \<Rightarrow> exc + 'img"
  affine_transform :: "'img \<Rightarrow> ltaval \<Rightarrow> nat \<Rightarrow> exc + 'img"
  nb_save :: "'img \<Rightarrow> string \<Rightarrow> exc + unit"

text \<open>
  The second half of \<^verbatim>\<open>applyTransform\<close>: interpolation and writing. \<open>m\<close> is \<open>None\<close> when the
  variable \<^verbatim>\<open>m\<close> was never assigned. The result is the list of files written, each with
  the image saved to it, and the outcome.
\<close>

definition apply_and_write ::
  "'img imaging \<Rightarrow> 'img \<Rightarrow> ltaval option \<Rightarrow> string \<Rightarrow> string \<Rightarrow> (string \<times> 'img) list \<times> (exc + unit)" where
  "apply_and_write im img_data m out_file interp =
     (let order = (if interp = ''nearest'' then Some 0 else if interp = ''cubic'' then Some 3 else None)
      in case order of
           None \<Rightarrow> ([], Inl (Exception ''ERROR: interpolation must be either nearest or cubic''))
         | Some n \<Rightarrow>
             (case m of
                None \<Rightarrow> ([], Inl (UnboundLocalError ''m''))
              | Some mat \<Rightarrow>
                  (case affine_transform im img_data mat n of
                     Inl e \<Rightarrow> ([], Inl e)
                   | Inr img_interp \<Rightarrow>
                       (case nb_save im img_interp out_file of
                          Inl e \<Rightarrow> ([], Inl e)
                        | Inr u \<Rightarrow> ([(out_file, img_interp)], Inr ())))))"

definition applyTransform ::
  "'img imaging \<Rightarrow> builtins \<Rightarrow> (string \<rightharpoonup> string list) \<Rightarrow>
     string \<Rightarrow> string \<Rightarrow> string \<Rightarrow> string \<Rightarrow> (string \<times> 'img) list \<times> (exc + unit)" where
  "applyTransform im bi fs img_file out_file mat_file interp =
     (case nb_load im img_file of
        Inl e \<Rightarrow> ([], Inl e)
      | Inr img_data \<Rightarrow>
          (let mat_file_ext = splitext_ext mat_file in
           if mat_file_ext = ''.xfm'' then
             ([], Inl (Exception ''ERROR: xfm matrices not (yet) supported. Please convert to lta format''))
           else if mat_file_ext = ''.lta'' then
             (case readLTA bi fs mat_file of
                Inl e \<Rightarrow> ([], Inl e)
              | Inr lta \<Rightarrow>
                  (case lta ''type'' of
                     None \<Rightarrow> ([], Inl (KeyError ''type''))
                   | Some ty \<Rightarrow>
                       if ty = VInt 1 then
                         ([], Inl (Exception ''ERROR: lta type 1 (ras2ras) not supported yet''))
                       else if ty = VInt 0 then
                         (case lta ''lta'' of
                            None \<Rightarrow> ([], Inl (KeyError ''lta''))
                          | Some m \<Rightarrow> apply_and_write im img_data (Some m) out_file interp)
                       else apply_and_write im img_data None out_file interp))
           else ([], Inl (Exception ''ERROR: matrices must be either xfm or lta format''))))"

text \<open>
  Instances of the parameters, for the examples: conversions that accept plain decimal
  numerals with an optional sign (and, for \<open>float\<close>, an optional fraction), on which they
  agree with Python's; and imaging steps on images that are strings.
\<close>

definition digits_value :: "string \<Rightarrow> nat" where
  "digits_value s = foldl (\<lambda>a c. 10 * a + (of_char c - 48)) 0 s"

definition plain_nat :: "string \<Rightarrow> exc + nat" where
  "plain_nat s = (if s \<noteq> [] \<and> filter (\<lambda>c. \<not> is_digit c) s = [] then Inr (digits_value s) else Inl ValueError)"

definition plain_int :: "string \<Rightarrow> exc + int" where
  "plain_int s =
     (case s of
        [] \<Rightarrow> Inl ValueError
      | c # cs \<Rightarrow>
          if c = CHR ''-'' then (case plain_nat cs of Inl e \<Rightarrow> Inl e | Inr n \<Rightarrow> Inr (- int n))
          else if c = CHR ''+'' then (case plain_nat cs of Inl e \<Rightarrow> Inl e | Inr n \<Rightarrow> Inr (int n))
          else (case plain_nat s of Inl e \<Rightarrow> Inl e | Inr n \<Rightarrow> Inr (int n)))"

definition plain_ufloat :: "string \<Rightarrow> exc + real" where
  "plain_ufloat s =
     (let ip = takeWhile (\<lambda>c. c \<noteq> CHR ''.'') s;
          fp = drop 1 (dropWhile (\<lambda>c. c \<noteq> CHR ''.'') s)
      in case plain_nat ip of
           Inl e \<Rightarrow> Inl e
         | Inr n \<Rightarrow>
             if fp = [] then Inr (real n)
             else (case plain_nat fp of
                     Inl e \<Rightarrow> Inl e
                   | Inr f \<Rightarrow> Inr (real n + real f / 10 ^ length fp)))"

definition plain_float :: "string \<Rightarrow> exc + real" where
  "plain_float s =
     (case s of
        [] \<Rightarrow> Inl ValueError
      | c # cs \<Rightarrow>
          if c = CHR ''-'' then (case plain_ufloat cs of Inl e \<Rightarrow> Inl e | Inr x \<Rightarrow> Inr (- x))
          else if c = CHR ''+'' then plain_ufloat cs
          else plain_ufloat s)"

definition plain_builtins :: builtins where
  "plain_builtins = \<lparr>py_int = plain_int, py_float = plain_float\<rparr>"

definition text_imaging :: "string imaging" where
  "text_imaging = \<lparr>nb_load = (\<lambda>f. Inr f), affine_transform = (\<lambda>img m n. Inr img),
                    nb_save = (\<lambda>img f. Inr ())\<rparr>"

text \<open>
  A transform file of type 1 and one of type 0, with one-element \<^verbatim>\<open>xras\<close> to \<^verbatim>\<open>cras\<close>
  lists to keep them short, under \<^verbatim>\<open>/x/t1.lta\<close> and \<^verbatim>\<open>/x/t0.lta\<close>.
\<close>

definition lta_lines :: "string \<Rightarrow> string list" where
  "lta_lines ty =
     map (\<lambda>l. l @ [CHR 0x0A])
       [''type      = '' @ ty @ '' # transform type'',
        ''nxforms   = 1'',
        ''1.0 0.0 0.0 0.0'',
        ''0.0 1.0 0.0 0.0'',
        ''0.0 0.0 1.0 0.0'',
        ''0.0 0.0 0.0 1.0'',
        ''src volume info'',
        ''valid = 1  # volume info valid'',
        ''xras   = -1.0'',
        ''yras   = 0.0'',
        ''zras   = 0.0'',
        ''cras   = 2.5'',
        ''dst volume info'',
        ''xras   = 1.0'',
        ''yras   = 0.0'',
        ''zras   = 0.0'',
        ''cras   = 0.0'']"

definition lta_fs :: "string \<rightharpoonup> string list" where
  "lta_fs = [''/x/t1.lta'' \<mapsto> lta_lines ''1'', ''/x/t0.lta'' \<mapsto> lta_lines ''0'']"

section \<open>Sums of numpy floats\<close>

lemma np_add_commute: "np_add a b = np_add b a"
  by (simp add: np_add_def split: option.splits)

lemma np_add_assoc: "np_add (np_add a b) c = np_add a (np_add b c)"
  by (simp add: np_add_def split: option.splits)

lemma np_add_left_commute: "np_add a (np_add b c) = np_add b (np_add a c)"
  by (simp add: np_add_def split: option.splits)

lemma np_add_zero [simp]: "np_add (Some 0) a = a" "np_add a (Some 0) = a"
  by (simp_all add: np_add_def split: option.splits)

lemma np_add_None [simp]: "np_add None a = None" "np_add a None = None"
  by (simp_all add: np_add_def split: option.splits)

lemma np_add_Some [simp]: "np_add (Some x) (Some y) = Some (x + y)"
  by (simp add: np_add_def)

lemma np_sum_Nil [simp]: "np_sum [] = Some 0"
  by (simp add: np_sum_def)

lemma np_sum_Cons [simp]: "np_sum (x # xs) = np_add x (np_sum xs)"
  by (simp add: np_sum_def)

lemma np_sum_append: "np_sum (xs @ ys) = np_add (np_sum xs) (np_sum ys)"
  by (induction xs) (simp_all add: np_add_assoc)

lemma np_sum_concat: "np_sum (concat xss) = np_sum (map np_sum xss)"
  by (induction xss) (simp_all add: np_sum_append)



lemma np_sum_partition:
  "np_sum (map f xs) = np_add (np_sum (map f (filter P xs))) (np_sum (map f (filter (\<lambda>x. \<not> P x) xs)))"
  by (induction xs) (simp_all add: np_add_assoc np_add_left_commute)

lemma np_sum_all_zero: "(\<And>x. x \<in> set xs \<Longrightarrow> x = Some 0) \<Longrightarrow> np_sum xs = Some 0"
  by (induction xs) auto

section \<open>Coordinate lists of the assembled matrices\<close>

lemma length_tria_lists [simp]:
  "length (tria_I tr) = 9" "length (tria_J tr) = 9" "length (tria_localA v tr w) = 9"
  "length (tria_localB w) = 9" "length (tria_localB_lump w) = 3" "length (tria_I_lump tr) = 3"
  by (cases tr; simp add: tria_localA_def tria_localB_def tria_localB_lump_def Let_def)+

lemma length_concat_const:
  "(\<And>x. x \<in> set xs \<Longrightarrow> length (f x) = n) \<Longrightarrow> length (concat (map f xs)) = n * length xs"
  by (induction xs) simp_all

lemma length_concat_map2_const:
  "length ws = length ts \<Longrightarrow> (\<And>t w. length (h t w) = n) \<Longrightarrow>
   length (concat (map2 h ts ws)) = n * length ts"
  by (induction ws ts rule: list_induct2) simp_all

lemma zip_concat_map2:
  assumes "length ws = length ts"
    and "\<And>t. length (f t) = n" and "\<And>t. length (g t) = n" and "\<And>t w. length (h t w) = n"
  shows "zip (concat (map f ts)) (zip (concat (map g ts)) (concat (map2 h ts ws))) =
         concat (map2 (\<lambda>t w. zip (f t) (zip (g t) (h t w))) ts ws)"
  using assms(1)
proof (induction ws ts rule: list_induct2)
  case Nil
  show ?case by simp
next
  case (Cons w ws t ts)
  have l: "length (concat (map g ts)) = length (concat (map2 h ts ws))"
    using Cons.hyps assms(3,4) by (simp add: length_concat_const length_concat_map2_const)
  show ?case using Cons.IH assms(2,3,4) by (simp add: l)
qed

lemma zip_concat_map:
  assumes "length ws = length ts"
    and "\<And>t. length (f t) = n" and "\<And>t. length (g t) = n" and "\<And>w. length (h w) = n"
  shows "zip (concat (map f ts)) (zip (concat (map g ts)) (concat (map h ws))) =
         concat (map2 (\<lambda>t w. zip (f t) (zip (g t) (h w))) ts ws)"
proof -
  have "concat (map h ws) = concat (map2 (\<lambda>t. h) ts ws)"
    using assms(1) by (induction ws ts rule: list_induct2) simp_all
  then show ?thesis
    using zip_concat_map2 [OF assms(1), of f n g "\<lambda>t. h"] assms(2,3,4) by simp
qed

lemma length_tria_guard [simp]: "length (tria_guard xs) = length xs"
  by (simp add: tria_guard_def Let_def)

lemma computeABtria_Inr:
  assumes "t \<noteq> []" and "list_all (tria_in_bounds (length v)) t"
  shows "computeABtria v t lump = Inr
     (\<lparr>nrows = Suc (Max (set (concat (map tria_I t)))),
       ncols = Suc (Max (set (concat (map tria_J t)))),
       coo = concat (map2 (\<lambda>tr w. zip (tria_I tr) (zip (tria_J tr) (tria_localA v tr w)))
                t (tria_guard (map (tria_vol v) t)))\<rparr>,
      if lump then
        \<lparr>nrows = Suc (Max (set (concat (map tria_I_lump t)))),
         ncols = Suc (Max (set (concat (map tria_I_lump t)))),
         coo = concat (map2 (\<lambda>tr w. zip (tria_I_lump tr) (zip (tria_I_lump tr) (tria_localB_lump w)))
                t (tria_guard (map (tria_vol v) t)))\<rparr>
      else
        \<lparr>nrows = Suc (Max (set (concat (map tria_I t)))),
         ncols = Suc (Max (set (concat (map tria_J t)))),
         coo = concat (map2 (\<lambda>tr w. zip (tria_I tr) (zip (tria_J tr) (tria_localB w)))
                t (tria_guard (map (tria_vol v) t)))\<rparr>)"
proof -
  let ?vol = "tria_guard (map (tria_vol v) t)"
  have lv: "length ?vol = length t" by simp
  have n0: "0 < length t" using assms(1) by simp
  have lA: "length (concat (map2 (tria_localA v) t ?vol)) = 9 * length t"
    by (rule length_concat_map2_const [OF lv]) simp
  have lI: "length (concat (map tria_I t)) = 9 * length t"
    by (rule length_concat_const) simp
  have lJ: "length (concat (map tria_J t)) = 9 * length t"
    by (rule length_concat_const) simp
  have lB: "length (concat (map tria_localB ?vol)) = 9 * length t"
    using length_concat_const [of ?vol tria_localB 9] by simp
  have lBl: "length (concat (map tria_localB_lump ?vol)) = 3 * length t"
    using length_concat_const [of ?vol tria_localB_lump 3] by simp
  have lIl: "length (concat (map tria_I_lump t)) = 3 * length t"
    by (rule length_concat_const) simp
  have zA: "zip (concat (map tria_I t)) (zip (concat (map tria_J t)) (concat (map2 (tria_localA v) t ?vol)))
      = concat (map2 (\<lambda>tr w. zip (tria_I tr) (zip (tria_J tr) (tria_localA v tr w))) t ?vol)"
    by (rule zip_concat_map2 [OF lv, of _ 9]) simp_all
  have zB: "zip (concat (map tria_I t)) (zip (concat (map tria_J t)) (concat (map tria_localB ?vol)))
      = concat (map2 (\<lambda>tr w. zip (tria_I tr) (zip (tria_J tr) (tria_localB w))) t ?vol)"
    by (rule zip_concat_map [OF lv, of _ 9]) simp_all
  have zBl: "zip (concat (map tria_I_lump t)) (zip (concat (map tria_I_lump t)) (concat (map tria_localB_lump ?vol)))
      = concat (map2 (\<lambda>tr w. zip (tria_I_lump tr) (zip (tria_I_lump tr) (tria_localB_lump w))) t ?vol)"
    by (rule zip_concat_map [OF lv, of _ 3]) simp_all
  have ne: "concat (map2 (tria_localA v) t ?vol) \<noteq> []" "concat (map tria_localB ?vol) \<noteq> []"
     "concat (map tria_localB_lump ?vol) \<noteq> []"
    using lA lB lBl n0 by (metis length_0_conv mult_is_0 not_less_zero zero_neq_numeral)+
  show ?thesis
    using assms ne
    by (simp add: computeABtria_def csc_matrix_def Let_def lA lI lJ lB lBl lIl zA zB zBl
        del: length_0_conv concat_eq_Nil_conv)
qed

lemma length_tetra_lists [simp]:
  "length (tetra_I tr) = 16" "length (tetra_J tr) = 16" "length (tetra_localA v tr w) = 16"
  "length (tetra_localB w) = 16" "length (tetra_localB_lump w) = 4" "length (tetra_I_lump tr) = 4"
  by (cases tr; simp add: tetra_localA_def tetra_localB_def tetra_localB_lump_def Let_def)+

lemma length_tetra_guard [simp]: "length (tetra_guard xs) = length xs"
  by (simp add: tetra_guard_def Let_def)

lemma computeABtetra_Inr:
  assumes "t \<noteq> []" and "list_all (tetra_in_bounds (length v)) t"
  shows "computeABtetra v t lump = Inr
     (\<lparr>nrows = Suc (Max (set (concat (map tetra_I t)))),
       ncols = Suc (Max (set (concat (map tetra_J t)))),
       coo = concat (map2 (\<lambda>tr w. zip (tetra_I tr) (zip (tetra_J tr) (tetra_localA v tr w)))
                t (tetra_guard (map (tetra_vol v) t)))\<rparr>,
      if lump then
        \<lparr>nrows = Suc (Max (set (concat (map tetra_I_lump t)))),
         ncols = Suc (Max (set (concat (map tetra_I_lump t)))),
         coo = concat (map2 (\<lambda>tr w. zip (tetra_I_lump tr) (zip (tetra_I_lump tr) (tetra_localB_lump w)))
                t (tetra_guard (map (tetra_vol v) t)))\<rparr>
      else
        \<lparr>nrows = Suc (Max (set (concat (map tetra_I t)))),
         ncols = Suc (Max (set (concat (map tetra_J t)))),
         coo = concat (map2 (\<lambda>tr w. zip (tetra_I tr) (zip (tetra_J tr) (tetra_localB w)))
                t (tetra_guard (map (tetra_vol v) t)))\<rparr>)"
proof -
  let ?vol = "tetra_guard (map (tetra_vol v) t)"
  have lv: "length ?vol = length t" by simp
  have n0: "0 < length t" using assms(1) by simp
  have lA: "length (concat (map2 (tetra_localA v) t ?vol)) = 16 * length t"
    by (rule length_concat_map2_const [OF lv]) simp
  have lI: "length (concat (map tetra_I t)) = 16 * length t"
    by (rule length_concat_const) simp
  have lJ: "length (concat (map tetra_J t)) = 16 * length t"
    by (rule length_concat_const) simp
  have lB: "length (concat (map tetra_localB ?vol)) = 16 * length t"
    using length_concat_const [of ?vol tetra_localB 16] by simp
  have lBl: "length (concat (map tetra_localB_lump ?vol)) = 4 * length t"
    using length_concat_const [of ?vol tetra_localB_lump 4] by simp
  have lIl: "length (concat (map tetra_I_lump t)) = 4 * length t"
    by (rule length_concat_const) simp
  have zA: "zip (concat (map tetra_I t)) (zip (concat (map tetra_J t)) (concat (map2 (tetra_localA v) t ?vol)))
      = concat (map2 (\<lambda>tr w. zip (tetra_I tr) (zip (tetra_J tr) (tetra_localA v tr w))) t ?vol)"
    by (rule zip_concat_map2 [OF lv, of _ 16]) simp_all
  have zB: "zip (concat (map tetra_I t)) (zip (concat (map tetra_J t)) (concat (map tetra_localB ?vol)))
      = concat (map2 (\<lambda>tr w. zip (tetra_I tr) (zip (tetra_J tr) (tetra_localB w))) t ?vol)"
    by (rule zip_concat_map [OF lv, of _ 16]) simp_all
  have zBl: "zip (concat (map tetra_I_lump t)) (zip (concat (map tetra_I_lump t)) (concat (map tetra_localB_lump ?vol)))
      = concat (map2 (\<lambda>tr w. zip (tetra_I_lump tr) (zip (tetra_I_lump tr) (tetra_localB_lump w))) t ?vol)"
    by (rule zip_concat_map [OF lv, of _ 4]) simp_all
  have ne: "concat (map2 (tetra_localA v) t ?vol) \<noteq> []" "concat (map tetra_localB ?vol) \<noteq> []"
     "concat (map tetra_localB_lump ?vol) \<noteq> []"
    using lA lB lBl n0 by (metis length_0_conv mult_is_0 not_less_zero zero_neq_numeral)+
  show ?thesis
    using assms ne
    by (simp add: computeABtetra_def csc_matrix_def Let_def lA lI lJ lB lBl lIl zA zB zBl
        del: length_0_conv concat_eq_Nil_conv)
qed


section \<open>Entries, row sums and symmetry of a sparse matrix\<close>

lemma mat_get_alt:
  "mat_get M i j = np_sum (map (\<lambda>e. snd (snd e)) (filter (\<lambda>e. fst e = i \<and> fst (snd e) = j) (coo M)))"
  by (simp add: mat_get_def case_prod_unfold)

lemma transpose_entry_simps [simp]:
  "fst (transpose_entry e) = fst (snd e)" "fst (snd (transpose_entry e)) = fst e"
  "snd (snd (transpose_entry e)) = snd (snd e)"
  by (simp_all add: transpose_entry_def case_prod_unfold)


lemma np_sum_by_column:
  fixes es :: "(nat \<times> nat \<times> npfloat) list"
  assumes "\<And>e. e \<in> set es \<Longrightarrow> fst (snd e) < n"
  shows "np_sum (map (\<lambda>j. np_sum (map (\<lambda>e. snd (snd e)) (filter (\<lambda>e. fst (snd e) = j) es))) [0..<n])
         = np_sum (map (\<lambda>e. snd (snd e)) es)"
  using assms
proof (induction n arbitrary: es)
  case 0
  then have "es = []" by (cases es) auto
  then show ?case by simp
next
  case (Suc n)
  let ?val = "\<lambda>e :: nat \<times> nat \<times> npfloat. snd (snd e)"
  let ?col = "\<lambda>(j :: nat) (xs :: (nat \<times> nat \<times> npfloat) list). np_sum (map ?val (filter (\<lambda>e. fst (snd e) = j) xs))"
  let ?lo = "filter (\<lambda>e. fst (snd e) < n) es"
  let ?hi = "filter (\<lambda>e. \<not> fst (snd e) < n) es"
  have a: "?col j es = ?col j ?lo" if "j < n" for j
  proof -
    have "filter (\<lambda>e. fst (snd e) = j) es = filter (\<lambda>e. fst (snd e) = j) ?lo"
      using that by (auto intro!: filter_cong)
    then show ?thesis by (simp only:)
  qed
  have b: "map (\<lambda>j. ?col j es) [0..<n] = map (\<lambda>j. ?col j ?lo) [0..<n]"
    by (rule map_cong [OF refl]) (simp add: a)
  have c: "np_sum (map (\<lambda>j. ?col j ?lo) [0..<n]) = np_sum (map ?val ?lo)"
    by (rule Suc.IH) simp
  have d: "filter (\<lambda>e. fst (snd e) = n) es = ?hi"
    using Suc.prems by (auto intro!: filter_cong simp: less_Suc_eq)
  have "np_sum (map (\<lambda>j. ?col j es) [0..<Suc n])
        = np_add (np_sum (map (\<lambda>j. ?col j es) [0..<n])) (?col n es)"
    by (simp add: np_sum_append)
  also have "\<dots> = np_add (np_sum (map ?val ?lo)) (np_sum (map ?val ?hi))"
    by (simp only: b c d)
  also have "\<dots> = np_sum (map ?val es)"
    by (rule np_sum_partition [symmetric])
  finally show ?case .
qed

lemma row_sum_eq:
  assumes "\<And>e. e \<in> set (coo M) \<Longrightarrow> fst (snd e) < ncols M"
  shows "row_sum M i = np_sum (map (\<lambda>e. snd (snd e)) (filter (\<lambda>e. fst e = i) (coo M)))"
proof -
  let ?R = "filter (\<lambda>e. fst e = i) (coo M)"
  have "mat_get M i = (\<lambda>j. np_sum (map (\<lambda>e. snd (snd e)) (filter (\<lambda>e. fst (snd e) = j) ?R)))"
  proof (rule ext)
    fix j
    have "filter (\<lambda>e. fst e = i \<and> fst (snd e) = j) (coo M) = filter (\<lambda>e. fst (snd e) = j) ?R"
      by (auto intro!: filter_cong)
    then show "mat_get M i j = np_sum (map (\<lambda>e. snd (snd e)) (filter (\<lambda>e. fst (snd e) = j) ?R))"
      unfolding mat_get_alt by (simp only:)
  qed
  then have "row_sum M i = np_sum (map (\<lambda>j. np_sum (map (\<lambda>e. snd (snd e)) (filter (\<lambda>e. fst (snd e) = j) ?R))) [0..<ncols M])"
    unfolding row_sum_def by (simp only:)
  also have "\<dots> = np_sum (map (\<lambda>e. snd (snd e)) ?R)"
    by (rule np_sum_by_column) (use assms in auto)
  finally show ?thesis .
qed

lemma sum_list_pos_real:
  fixes xs :: "real list"
  assumes "\<And>x. x \<in> set xs \<Longrightarrow> 0 \<le> x" and "y \<in> set xs" and "0 < y"
  shows "0 < sum_list xs"
  using assms
proof (induction xs)
  case Nil
  then show ?case by simp
next
  case (Cons a xs)
  have n: "0 \<le> sum_list xs" using Cons.prems(1) by (simp add: sum_list_nonneg)
  have a0: "0 \<le> a" using Cons.prems(1) by simp
  show ?case
  proof (cases "y = a")
    case True
    then show ?thesis using n Cons.prems(3) by simp
  next
    case False
    then have "y \<in> set xs" using Cons.prems(2) by simp
    then have "0 < sum_list xs" using Cons.IH Cons.prems by simp
    then show ?thesis using a0 by simp
  qed
qed

lemma rowdot_self_nonneg: "0 \<le> rowdot a a"
  by (cases a) simp

lemma tria_vol_nonneg: "0 \<le> tria_vol v tr"
  by (cases tr) (simp add: tria_vol_def Let_def rowdot_self_nonneg)

lemma tria_guard_pos:
  assumes "\<And>x. x \<in> set vol \<Longrightarrow> 0 \<le> x" and "y \<in> set vol" and "0 < y" and "w \<in> set (tria_guard vol)"
  shows "0 < w"
proof -
  have s: "0 < sum_list vol" using assms(1,2,3) by (rule sum_list_pos_real)
  have l: "0 < length vol" using assms(2) by (cases vol) auto
  have m: "0 < 0.0001 * np_mean vol" using s l by (simp add: np_mean_def)
  have e: "0 < float_epsilon" by (simp add: float_epsilon_def)
  obtain x where "x \<in> set vol" and "w = (if x < float_epsilon then 0.0001 * np_mean vol else x)"
    using assms(4) by (auto simp: tria_guard_def Let_def)
  then show ?thesis using m e by (auto split: if_splits)
qed


lemma np_sum_filter_concat_zero:
  assumes "\<And>x. x \<in> set xs \<Longrightarrow> np_sum (map h (filter P (g x))) = Some 0"
  shows "np_sum (map h (filter P (concat (map g xs)))) = Some 0"
  using assms by (induction xs) (simp_all add: np_sum_append)

lemma np_sum_filter_concat_eq:
  assumes "\<And>x. x \<in> set xs \<Longrightarrow> np_sum (map h (filter P (g x))) = np_sum (map h' (filter P' (g' x)))"
  shows "np_sum (map h (filter P (concat (map g xs)))) = np_sum (map h' (filter P' (concat (map g' xs))))"
  using assms by (induction xs) (simp_all add: np_sum_append)




lemma tria_entry_row_zero:
  assumes "w \<noteq> 0"
  shows "np_sum (map (\<lambda>e. snd (snd e)) (filter (\<lambda>e. fst e = i)
           (zip (tria_I tr) (zip (tria_J tr) (tria_localA v tr w))))) = Some 0"
  using assms
  by (cases tr) (simp add: tria_localA_def Let_def np_div_def np_sub_def np_neg_def)

lemma tria_entry_mass_rows:
  "np_sum (map (\<lambda>e. snd (snd e)) (filter (\<lambda>e. fst e = i)
           (zip (tria_I tr) (zip (tria_J tr) (tria_localB w)))))
   = np_sum (map (\<lambda>e. snd (snd e)) (filter (\<lambda>e. fst e = i \<and> fst (snd e) = i)
           (zip (tria_I_lump tr) (zip (tria_I_lump tr) (tria_localB_lump w)))))"
  by (cases tr) (simp add: tria_localB_def tria_localB_lump_def Let_def np_div_def)




lemma tetra_localA_shape:
  assumes "w \<noteq> 0"
  obtains a12 a13 a14 a23 a24 a34 :: real where
    "tetra_localA v tr w =
       [Some a12, Some a12, Some a23, Some a23, Some a13, Some a13, Some a14, Some a14,
        Some a24, Some a24, Some a34, Some a34,
        Some (- a12 - a13 - a14), Some (- a12 - a23 - a24),
        Some (- a13 - a23 - a34), Some (- a14 - a24 - a34)]"
proof -
  obtain t1 t2 t3 t4 where tr: "tr = (t1, t2, t3, t4)" by (cases tr)
  define e1 where "e1 = vsub (v ! t2) (v ! t1)"
  define e2 where "e2 = vsub (v ! t3) (v ! t2)"
  define e3 where "e3 = vsub (v ! t1) (v ! t3)"
  define e4 where "e4 = vsub (v ! t4) (v ! t1)"
  define e5 where "e5 = vsub (v ! t4) (v ! t2)"
  define e6 where "e6 = vsub (v ! t4) (v ! t3)"
  define n12 where "n12 = - rowdot e3 e6 * rowdot e2 e6 + rowdot e2 e3 * rowdot e6 e6"
  define n13 where "n13 = - rowdot e1 e5 * rowdot e2 e5 + rowdot e1 e2 * rowdot e5 e5"
  define n14 where "n14 = rowdot e2 e3 * rowdot e2 e6 - rowdot e3 e6 * rowdot e2 e2"
  define n23 where "n23 = - rowdot e1 e4 * rowdot e3 e4 + rowdot e1 e3 * rowdot e4 e4"
  define n24 where "n24 = rowdot e1 e3 * rowdot e3 e4 - rowdot e1 e4 * rowdot e3 e3"
  define n34 where "n34 = - rowdot e1 e4 * rowdot e1 e3 + rowdot e1 e1 * rowdot e3 e4"
  have "tetra_localA v tr w =
       [Some (n12 / w / 6), Some (n12 / w / 6), Some (n23 / w / 6), Some (n23 / w / 6),
        Some (n13 / w / 6), Some (n13 / w / 6), Some (n14 / w / 6), Some (n14 / w / 6),
        Some (n24 / w / 6), Some (n24 / w / 6), Some (n34 / w / 6), Some (n34 / w / 6),
        Some (- (n12 / w / 6) - n13 / w / 6 - n14 / w / 6),
        Some (- (n12 / w / 6) - n23 / w / 6 - n24 / w / 6),
        Some (- (n13 / w / 6) - n23 / w / 6 - n34 / w / 6),
        Some (- (n14 / w / 6) - n24 / w / 6 - n34 / w / 6)]"
    unfolding tr tetra_localA_def Let_def
    using assms
    by (simp add: np_div_def np_sub_def np_neg_def diff_divide_distrib
        e1_def [symmetric] e2_def [symmetric] e3_def [symmetric] e4_def [symmetric]
        e5_def [symmetric] e6_def [symmetric] n12_def n13_def n14_def n23_def n24_def n34_def)
  then show thesis by (rule that)
qed

lemma tetra_entry_row_zero:
  assumes "w \<noteq> 0"
  shows "np_sum (map (\<lambda>e. snd (snd e)) (filter (\<lambda>e. fst e = i)
           (zip (tetra_I tr) (zip (tetra_J tr) (tetra_localA v tr w))))) = Some 0"
proof -
  obtain a12 a13 a14 a23 a24 a34 :: real where
    s: "tetra_localA v tr w =
       [Some a12, Some a12, Some a23, Some a23, Some a13, Some a13, Some a14, Some a14,
        Some a24, Some a24, Some a34, Some a34,
        Some (- a12 - a13 - a14), Some (- a12 - a23 - a24),
        Some (- a13 - a23 - a34), Some (- a14 - a24 - a34)]"
    using assms by (rule tetra_localA_shape)
  show ?thesis unfolding s by (cases tr) simp
qed

lemma tetra_entry_mass_rows:
  "np_sum (map (\<lambda>e. snd (snd e)) (filter (\<lambda>e. fst e = i)
           (zip (tetra_I tr) (zip (tetra_J tr) (tetra_localB w)))))
   = np_sum (map (\<lambda>e. snd (snd e)) (filter (\<lambda>e. fst e = i \<and> fst (snd e) = i)
           (zip (tetra_I_lump tr) (zip (tetra_I_lump tr) (tetra_localB_lump w)))))"
  by (cases tr) (simp add: tetra_localB_def tetra_localB_lump_def Let_def np_div_def)

section \<open>The assembled matrices\<close>

lemma zip_col_bound:
  assumes "e \<in> set (zip I (zip J dat))"
  shows "fst (snd e) < Suc (Max (set J))"
proof -
  obtain r c x where e: "e = (r, c, x)" by (cases e) auto
  then have "(c, x) \<in> set (zip J dat)" using assms by (auto dest: set_zip_rightD)
  then have "c \<in> set J" by (rule set_zip_leftD)
  then have "c \<le> Max (set J)" by simp
  then show ?thesis using e by simp
qed

lemma csc_matrix_cols:
  assumes "csc_matrix dat I J = Inr M" and "e \<in> set (coo M)"
  shows "fst (snd e) < ncols M"
  using assms by (auto simp: csc_matrix_def zip_col_bound split: if_splits)

lemma computeABtria_parts:
  assumes "computeABtria v t lump = Inr (A, B)"
  shows "t \<noteq> []" and "list_all (tria_in_bounds (length v)) t"
    and "csc_matrix (concat (map2 (tria_localA v) t (tria_guard (map (tria_vol v) t))))
           (concat (map tria_I t)) (concat (map tria_J t)) = Inr A"
    and "\<not> lump \<Longrightarrow> csc_matrix (concat (map tria_localB (tria_guard (map (tria_vol v) t))))
           (concat (map tria_I t)) (concat (map tria_J t)) = Inr B"
    and "lump \<Longrightarrow> csc_matrix (concat (map tria_localB_lump (tria_guard (map (tria_vol v) t))))
           (concat (map tria_I_lump t)) (concat (map tria_I_lump t)) = Inr B"
  using assms by (auto simp: computeABtria_def Let_def split: if_splits sum.splits)

lemma computeABtria_coo:
  assumes "computeABtria v t lump = Inr (A, B)"
  shows "coo A = concat (map2 (\<lambda>tr w. zip (tria_I tr) (zip (tria_J tr) (tria_localA v tr w)))
                t (tria_guard (map (tria_vol v) t)))"
    and "\<not> lump \<Longrightarrow> coo B = concat (map2 (\<lambda>tr w. zip (tria_I tr) (zip (tria_J tr) (tria_localB w)))
                t (tria_guard (map (tria_vol v) t)))"
    and "lump \<Longrightarrow> coo B = concat (map2 (\<lambda>tr w. zip (tria_I_lump tr) (zip (tria_I_lump tr) (tria_localB_lump w)))
                t (tria_guard (map (tria_vol v) t)))"
proof -
  have p: "t \<noteq> []" "list_all (tria_in_bounds (length v)) t"
    using computeABtria_parts [OF assms] by simp_all
  show "coo A = concat (map2 (\<lambda>tr w. zip (tria_I tr) (zip (tria_J tr) (tria_localA v tr w)))
                t (tria_guard (map (tria_vol v) t)))"
    using assms computeABtria_Inr [OF p, of lump] by auto
  show "\<not> lump \<Longrightarrow> coo B = concat (map2 (\<lambda>tr w. zip (tria_I tr) (zip (tria_J tr) (tria_localB w)))
                t (tria_guard (map (tria_vol v) t)))"
    using assms computeABtria_Inr [OF p, of lump] by auto
  show "lump \<Longrightarrow> coo B = concat (map2 (\<lambda>tr w. zip (tria_I_lump tr) (zip (tria_I_lump tr) (tria_localB_lump w)))
                t (tria_guard (map (tria_vol v) t)))"
    using assms computeABtria_Inr [OF p, of lump] by auto
qed

lemma tria_guard_nonzero:
  assumes "tr \<in> set t" and "tria_vol v tr \<noteq> 0" and "w \<in> set (tria_guard (map (tria_vol v) t))"
  shows "w \<noteq> 0"
proof -
  have "0 < tria_vol v tr" using assms(2) tria_vol_nonneg [of v tr] by simp
  moreover have "tria_vol v tr \<in> set (map (tria_vol v) t)" using assms(1) by simp
  moreover have "\<And>x. x \<in> set (map (tria_vol v) t) \<Longrightarrow> 0 \<le> x"
    by (auto simp: tria_vol_nonneg)
  ultimately have "0 < w" using assms(3) tria_guard_pos by blast
  then show ?thesis by simp
qed

lemma computeABtria_row_sums:
  assumes "computeABtria v t lump = Inr (A, B)" and "tr \<in> set t" and "tria_vol v tr \<noteq> 0"
  shows "row_sum A i = Some 0"
proof -
  let ?vol = "tria_guard (map (tria_vol v) t)"
  let ?E = "\<lambda>(tr, w). zip (tria_I tr) (zip (tria_J tr) (tria_localA v tr w))"
  have c: "coo A = concat (map ?E (zip t ?vol))"
    using computeABtria_coo(1) [OF assms(1)] by simp
  have "row_sum A i = np_sum (map (\<lambda>e. snd (snd e)) (filter (\<lambda>e. fst e = i) (coo A)))"
    by (rule row_sum_eq) (rule csc_matrix_cols [OF computeABtria_parts(3) [OF assms(1)]])
  also have "\<dots> = Some 0"
    unfolding c
  proof (rule np_sum_filter_concat_zero)
    fix x assume "x \<in> set (zip t ?vol)"
    moreover obtain tr' w where x: "x = (tr', w)" by (cases x)
    ultimately have w: "w \<in> set ?vol" by (auto dest: set_zip_rightD)
    have "w \<noteq> 0" using assms(2,3) w by (rule tria_guard_nonzero)
    then show "np_sum (map (\<lambda>e. snd (snd e)) (filter (\<lambda>e. fst e = i) (?E x))) = Some 0"
      unfolding x by (simp add: tria_entry_row_zero)
  qed
  finally show ?thesis .
qed


lemma computeABtria_mass_rows:
  assumes "computeABtria v t False = Inr (A, B)" and "computeABtria v t True = Inr (A', B')"
  shows "row_sum B i = mat_get B' i i"
proof -
  let ?vol = "tria_guard (map (tria_vol v) t)"
  let ?EB = "\<lambda>(tr, w :: real). zip (tria_I tr) (zip (tria_J tr) (tria_localB w))"
  let ?EL = "\<lambda>(tr, w :: real). zip (tria_I_lump tr) (zip (tria_I_lump tr) (tria_localB_lump w))"
  have cB: "coo B = concat (map ?EB (zip t ?vol))"
    using computeABtria_coo(2) [OF assms(1)] by simp
  have cL: "coo B' = concat (map ?EL (zip t ?vol))"
    using computeABtria_coo(3) [OF assms(2)] by simp
  have "row_sum B i = np_sum (map (\<lambda>e. snd (snd e)) (filter (\<lambda>e. fst e = i) (coo B)))"
    by (rule row_sum_eq) (rule csc_matrix_cols [OF computeABtria_parts(4) [OF assms(1)]], simp)
  also have "\<dots> = np_sum (map (\<lambda>e. snd (snd e)) (filter (\<lambda>e. fst e = i \<and> fst (snd e) = i) (coo B')))"
    unfolding cB cL
    by (rule np_sum_filter_concat_eq) (simp only: split_beta tria_entry_mass_rows)
  finally show ?thesis by (simp add: mat_get_alt)
qed

lemma computeABtetra_parts:
  assumes "computeABtetra v t lump = Inr (A, B)"
  shows "t \<noteq> []" and "list_all (tetra_in_bounds (length v)) t"
    and "csc_matrix (concat (map2 (tetra_localA v) t (tetra_guard (map (tetra_vol v) t))))
           (concat (map tetra_I t)) (concat (map tetra_J t)) = Inr A"
    and "\<not> lump \<Longrightarrow> csc_matrix (concat (map tetra_localB (tetra_guard (map (tetra_vol v) t))))
           (concat (map tetra_I t)) (concat (map tetra_J t)) = Inr B"
    and "lump \<Longrightarrow> csc_matrix (concat (map tetra_localB_lump (tetra_guard (map (tetra_vol v) t))))
           (concat (map tetra_I_lump t)) (concat (map tetra_I_lump t)) = Inr B"
  using assms by (auto simp: computeABtetra_def Let_def split: if_splits sum.splits)

lemma computeABtetra_coo:
  assumes "computeABtetra v t lump = Inr (A, B)"
  shows "coo A = concat (map2 (\<lambda>tr w. zip (tetra_I tr) (zip (tetra_J tr) (tetra_localA v tr w)))
                t (tetra_guard (map (tetra_vol v) t)))"
    and "\<not> lump \<Longrightarrow> coo B = concat (map2 (\<lambda>tr w. zip (tetra_I tr) (zip (tetra_J tr) (tetra_localB w)))
                t (tetra_guard (map (tetra_vol v) t)))"
    and "lump \<Longrightarrow> coo B = concat (map2 (\<lambda>tr w. zip (tetra_I_lump tr) (zip (tetra_I_lump tr) (tetra_localB_lump w)))
                t (tetra_guard (map (tetra_vol v) t)))"
proof -
  have p: "t \<noteq> []" "list_all (tetra_in_bounds (length v)) t"
    using computeABtetra_parts [OF assms] by simp_all
  show "coo A = concat (map2 (\<lambda>tr w. zip (tetra_I tr) (zip (tetra_J tr) (tetra_localA v tr w)))
                t (tetra_guard (map (tetra_vol v) t)))"
    using assms computeABtetra_Inr [OF p, of lump] by auto
  show "\<not> lump \<Longrightarrow> coo B = concat (map2 (\<lambda>tr w. zip (tetra_I tr) (zip (tetra_J tr) (tetra_localB w)))
                t (tetra_guard (map (tetra_vol v) t)))"
    using assms computeABtetra_Inr [OF p, of lump] by auto
  show "lump \<Longrightarrow> coo B = concat (map2 (\<lambda>tr w. zip (tetra_I_lump tr) (zip (tetra_I_lump tr) (tetra_localB_lump w)))
                t (tetra_guard (map (tetra_vol v) t)))"
    using assms computeABtetra_Inr [OF p, of lump] by auto
qed

lemma tetra_vol_nonneg: "0 \<le> tetra_vol v tr"
  by (cases tr) (simp add: tetra_vol_def Let_def)

lemma tetra_guard_pos:
  assumes "\<And>x. x \<in> set vol \<Longrightarrow> 0 \<le> x" and "y \<in> set vol" and "0 < y" and "w \<in> set (tetra_guard vol)"
  shows "0 < w"
proof -
  have s: "0 < sum_list vol" using assms(1,2,3) by (rule sum_list_pos_real)
  have l: "0 < length vol" using assms(2) by (cases vol) auto
  have m: "0 < 0.0001 * np_mean vol" using s l by (simp add: np_mean_def)
  obtain x where "x \<in> set vol" and "w = (if x = 0 then 0.0001 * np_mean vol else x)"
    using assms(4) by (auto simp: tetra_guard_def Let_def)
  then show ?thesis using m assms(1) [of x] by (auto split: if_splits)
qed

lemma tetra_guard_nonzero:
  assumes "tr \<in> set t" and "tetra_vol v tr \<noteq> 0" and "w \<in> set (tetra_guard (map (tetra_vol v) t))"
  shows "w \<noteq> 0"
proof -
  have "0 < tetra_vol v tr" using assms(2) tetra_vol_nonneg [of v tr] by simp
  moreover have "tetra_vol v tr \<in> set (map (tetra_vol v) t)" using assms(1) by simp
  moreover have "\<And>x. x \<in> set (map (tetra_vol v) t) \<Longrightarrow> 0 \<le> x"
    by (auto simp: tetra_vol_nonneg)
  ultimately have "0 < w" using assms(3) tetra_guard_pos by blast
  then show ?thesis by simp
qed

lemma computeABtetra_row_sums:
  assumes "computeABtetra v t lump = Inr (A, B)" and "tr \<in> set t" and "tetra_vol v tr \<noteq> 0"
  shows "row_sum A i = Some 0"
proof -
  let ?vol = "tetra_guard (map (tetra_vol v) t)"
  let ?E = "\<lambda>(tr, w). zip (tetra_I tr) (zip (tetra_J tr) (tetra_localA v tr w))"
  have c: "coo A = concat (map ?E (zip t ?vol))"
    using computeABtetra_coo(1) [OF assms(1)] by simp
  have "row_sum A i = np_sum (map (\<lambda>e. snd (snd e)) (filter (\<lambda>e. fst e = i) (coo A)))"
    by (rule row_sum_eq) (rule csc_matrix_cols [OF computeABtetra_parts(3) [OF assms(1)]])
  also have "\<dots> = Some 0"
    unfolding c
  proof (rule np_sum_filter_concat_zero)
    fix x assume "x \<in> set (zip t ?vol)"
    moreover obtain tr' w where x: "x = (tr', w)" by (cases x)
    ultimately have w: "w \<in> set ?vol" by (auto dest: set_zip_rightD)
    have "w \<noteq> 0" using assms(2,3) w by (rule tetra_guard_nonzero)
    then show "np_sum (map (\<lambda>e. snd (snd e)) (filter (\<lambda>e. fst e = i) (?E x))) = Some 0"
      unfolding x by (simp add: tetra_entry_row_zero)
  qed
  finally show ?thesis .
qed


lemma computeABtetra_mass_rows:
  assumes "computeABtetra v t False = Inr (A, B)" and "computeABtetra v t True = Inr (A', B')"
  shows "row_sum B i = mat_get B' i i"
proof -
  let ?vol = "tetra_guard (map (tetra_vol v) t)"
  let ?EB = "\<lambda>(tr, w :: real). zip (tetra_I tr) (zip (tetra_J tr) (tetra_localB w))"
  let ?EL = "\<lambda>(tr, w :: real). zip (tetra_I_lump tr) (zip (tetra_I_lump tr) (tetra_localB_lump w))"
  have cB: "coo B = concat (map ?EB (zip t ?vol))"
    using computeABtetra_coo(2) [OF assms(1)] by simp
  have cL: "coo B' = concat (map ?EL (zip t ?vol))"
    using computeABtetra_coo(3) [OF assms(2)] by simp
  have "row_sum B i = np_sum (map (\<lambda>e. snd (snd e)) (filter (\<lambda>e. fst e = i) (coo B)))"
    by (rule row_sum_eq) (rule csc_matrix_cols [OF computeABtetra_parts(4) [OF assms(1)]], simp)
  also have "\<dots> = np_sum (map (\<lambda>e. snd (snd e)) (filter (\<lambda>e. fst e = i \<and> fst (snd e) = i) (coo B')))"
    unfolding cB cL
    by (rule np_sum_filter_concat_eq) (simp only: split_beta tetra_entry_mass_rows)
  finally show ?thesis by (simp add: mat_get_alt)
qed

section \<open>Properties of the assembly\<close>

text \<open>The assembly returns a pair of matrices on every mesh it accepts.\<close>

lemma computeABtria_total:
  assumes "tria_mesh v t"
  shows "\<exists>A B. computeABtria v t lump = Inr (A, B)"
  using assms computeABtria_Inr [of t v lump] by (simp add: tria_mesh_def)

lemma computeABtetra_total:
  assumes "tetra_mesh v t"
  shows "\<exists>A B. computeABtetra v t lump = Inr (A, B)"
  using assms computeABtetra_Inr [of t v lump] by (simp add: tetra_mesh_def)

subsection \<open>Row sums of the stiffness matrix\<close>

text \<open>
  Claim C1 says that for every triangle mesh and every tetrahedral mesh with in-bounds
  vertex indices every row of the stiffness matrix \<open>A\<close> sums to zero, and the code says so
  too (\<^verbatim>\<open>compute diagonals (from row sum = 0)\<close>). The code on the mesh of one triangle with
  the three collinear vertices \<open>(0,0,0)\<close>, \<open>(1,0,0)\<close>, \<open>(2,0,0)\<close>: the only \<^verbatim>\<open>vol\<close> is \<open>0\<close>, so is
  \<^verbatim>\<open>vol_mean\<close>, the guard stores \<open>0\<close> again, every quotient \<^verbatim>\<open>.../vol\<close> is a division by zero,
  and row \<open>0\<close> of the matrix \<open>A\<close> that is returned sums to a non-finite value, not to \<open>0\<close>.
  This is the defect of the zero-area guard that the next subsection shows on the entries.
\<close>

theorem stiffness_row_sums_all_degenerate:
  "tria_mesh [(0, 0, 0), (1, 0, 0), (2, 0, 0)] [(0, 1, 2)] \<and>
   (\<exists>A B. computeABtria [(0, 0, 0), (1, 0, 0), (2, 0, 0)] [(0, 1, 2)] False = Inr (A, B) \<and>
      row_sum A 0 = None \<and> row_sum A 0 \<noteq> Some 0)"
  by (simp add: tria_mesh_def computeABtria_def tria_vol_def tria_guard_def np_mean_def
      float_epsilon_def tria_localA_def csc_matrix_def np_div_def np_sub_def np_neg_def
      tria_localB_def Let_def row_sum_def mat_get_def upt_rec)

text \<open>
  The construction itself is as the claim describes it. On every mesh with at least one
  cell of non-zero area (volume) the diagonal contributions are the negated sums of the
  off-diagonal ones, all entries are finite, and every row of \<open>A\<close> sums to the finite value
  \<open>0\<close>, in lumped and non-lumped mode.
\<close>

lemma stiffness_row_sums_zero:
  "(tria_mesh v t \<and> (\<exists>tr \<in> set t. tria_vol v tr \<noteq> 0) \<longrightarrow>
      (\<exists>A B. computeABtria v t lump = Inr (A, B) \<and> (\<forall>i. row_sum A i = Some 0))) \<and>
   (tetra_mesh v' t' \<and> (\<exists>tr \<in> set t'. tetra_vol v' tr \<noteq> 0) \<longrightarrow>
      (\<exists>A B. computeABtetra v' t' lump' = Inr (A, B) \<and> (\<forall>i. row_sum A i = Some 0)))"
proof (intro conjI impI)
  assume h: "tria_mesh v t \<and> (\<exists>tr \<in> set t. tria_vol v tr \<noteq> 0)"
  then obtain A B where c: "computeABtria v t lump = Inr (A, B)"
    using computeABtria_total by blast
  from h obtain tr where "tr \<in> set t" and "tria_vol v tr \<noteq> 0" by blast
  then have "\<forall>i. row_sum A i = Some 0"
    using computeABtria_row_sums [OF c] by blast
  with c show "\<exists>A B. computeABtria v t lump = Inr (A, B) \<and> (\<forall>i. row_sum A i = Some 0)"
    by blast
next
  assume h: "tetra_mesh v' t' \<and> (\<exists>tr \<in> set t'. tetra_vol v' tr \<noteq> 0)"
  then obtain A B where c: "computeABtetra v' t' lump' = Inr (A, B)"
    using computeABtetra_total by blast
  from h obtain tr where "tr \<in> set t'" and "tetra_vol v' tr \<noteq> 0" by blast
  then have "\<forall>i. row_sum A i = Some 0"
    using computeABtetra_row_sums [OF c] by blast
  with c show "\<exists>A B. computeABtetra v' t' lump' = Inr (A, B) \<and> (\<forall>i. row_sum A i = Some 0)"
    by blast
qed

text \<open>The two hypotheses hold on a right triangle and on the unit tetrahedron.\<close>

lemma stiffness_row_sums_zero_witness:
  "tria_mesh [(0, 0, 0), (1, 0, 0), (0, 1, 0)] [(0, 1, 2)] \<and>
   tria_vol [(0, 0, 0), (1, 0, 0), (0, 1, 0)] (0, 1, 2) = 2 \<and>
   (\<exists>A B. computeABtria [(0, 0, 0), (1, 0, 0), (0, 1, 0)] [(0, 1, 2)] False = Inr (A, B) \<and>
      (\<forall>i. row_sum A i = Some 0)) \<and>
   tetra_mesh [(0, 0, 0), (1, 0, 0), (0, 1, 0), (0, 0, 1)] [(0, 1, 2, 3)] \<and>
   tetra_vol [(0, 0, 0), (1, 0, 0), (0, 1, 0), (0, 0, 1)] (0, 1, 2, 3) = 1 \<and>
   (\<exists>A B. computeABtetra [(0, 0, 0), (1, 0, 0), (0, 1, 0), (0, 0, 1)] [(0, 1, 2, 3)] False = Inr (A, B) \<and>
      (\<forall>i. row_sum A i = Some 0))"
  using stiffness_row_sums_zero [of "[(0, 0, 0), (1, 0, 0), (0, 1, 0)]" "[(0, 1, 2)]" False
      "[(0, 0, 0), (1, 0, 0), (0, 1, 0), (0, 0, 1)]" "[(0, 1, 2, 3)]" False]
  by (simp add: tria_mesh_def tetra_mesh_def tria_vol_def tetra_vol_def)

subsection \<open>The zero-area guard\<close>

text \<open>
  Claim C4 says that on every mesh with a zero-area triangle the matrices hold finite
  entries only, the small value \<^verbatim>\<open>mean * 1e-4\<close> standing in for the area. The code on the
  mesh of one collinear triangle: the mean of the areas is \<open>0\<close>, the value substituted is
  \<open>0\<close>, and all nine stored entries of \<open>A\<close> are non-finite (the entries of \<open>B\<close> are \<open>0\<close>).
\<close>

theorem computeABtria_all_degenerate:
  "computeABtria [(0, 0, 0), (1, 0, 0), (2, 0, 0)] [(0, 1, 2)] False =
     Inr (\<lparr>nrows = 3, ncols = 3,
            coo = [(0, 1, None), (1, 0, None), (1, 2, None), (2, 1, None), (2, 0, None),
                   (0, 2, None), (0, 0, None), (1, 1, None), (2, 2, None)]\<rparr>,
          \<lparr>nrows = 3, ncols = 3,
            coo = [(0, 1, Some 0), (1, 0, Some 0), (1, 2, Some 0), (2, 1, Some 0), (2, 0, Some 0),
                   (0, 2, Some 0), (0, 0, Some 0), (1, 1, Some 0), (2, 2, Some 0)]\<rparr>)"
  by (simp add: computeABtria_def tria_vol_def tria_guard_def np_mean_def
      float_epsilon_def tria_localA_def csc_matrix_def np_div_def np_sub_def np_neg_def
      tria_localB_def Let_def)












subsection \<open>Symmetry\<close>




subsection \<open>Mass per vertex in the two mass modes\<close>

text \<open>
  Claim C10. For every triangle mesh and every tetrahedral mesh with at least one cell and
  in-bounds indices, each row sum of the non-lumped mass matrix \<open>B\<close> equals the diagonal
  entry, in the same row, of the mass matrix of lumped mode for the same mesh: both modes
  give every vertex the same total mass.
\<close>

theorem mass_rows_equal_lumped_diagonal:
  "(tria_mesh v t \<longrightarrow>
      (\<exists>A B A' B'. computeABtria v t False = Inr (A, B) \<and> computeABtria v t True = Inr (A', B') \<and>
         (\<forall>i. row_sum B i = mat_get B' i i))) \<and>
   (tetra_mesh v' t' \<longrightarrow>
      (\<exists>A B A' B'. computeABtetra v' t' False = Inr (A, B) \<and> computeABtetra v' t' True = Inr (A', B') \<and>
         (\<forall>i. row_sum B i = mat_get B' i i)))"
proof (intro conjI impI)
  assume m: "tria_mesh v t"
  obtain A B where c: "computeABtria v t False = Inr (A, B)"
    using computeABtria_total [OF m] by blast
  obtain A' B' where c': "computeABtria v t True = Inr (A', B')"
    using computeABtria_total [OF m] by blast
  show "\<exists>A B A' B'. computeABtria v t False = Inr (A, B) \<and> computeABtria v t True = Inr (A', B') \<and>
         (\<forall>i. row_sum B i = mat_get B' i i)"
    using c c' computeABtria_mass_rows [OF c c'] by blast
next
  assume m: "tetra_mesh v' t'"
  obtain A B where c: "computeABtetra v' t' False = Inr (A, B)"
    using computeABtetra_total [OF m] by blast
  obtain A' B' where c': "computeABtetra v' t' True = Inr (A', B')"
    using computeABtetra_total [OF m] by blast
  show "\<exists>A B A' B'. computeABtetra v' t' False = Inr (A, B) \<and> computeABtetra v' t' True = Inr (A', B') \<and>
         (\<forall>i. row_sum B i = mat_get B' i i)"
    using c c' computeABtetra_mass_rows [OF c c'] by blast
qed

text \<open>Both meshes of the earlier witnesses satisfy the hypothesis.\<close>

theorem mass_rows_equal_lumped_diagonal_witness:
  "tria_mesh [(0, 0, 0), (1, 0, 0), (0, 1, 0)] [(0, 1, 2)] \<and>
   (\<exists>A B A' B'. computeABtria [(0, 0, 0), (1, 0, 0), (0, 1, 0)] [(0, 1, 2)] False = Inr (A, B) \<and>
      computeABtria [(0, 0, 0), (1, 0, 0), (0, 1, 0)] [(0, 1, 2)] True = Inr (A', B') \<and>
      (\<forall>i. row_sum B i = mat_get B' i i)) \<and>
   tetra_mesh [(0, 0, 0), (1, 0, 0), (0, 1, 0), (0, 0, 1)] [(0, 1, 2, 3)] \<and>
   (\<exists>A B A' B'. computeABtetra [(0, 0, 0), (1, 0, 0), (0, 1, 0), (0, 0, 1)] [(0, 1, 2, 3)] False = Inr (A, B) \<and>
      computeABtetra [(0, 0, 0), (1, 0, 0), (0, 1, 0), (0, 0, 1)] [(0, 1, 2, 3)] True = Inr (A', B') \<and>
      (\<forall>i. row_sum B i = mat_get B' i i))"
  using mass_rows_equal_lumped_diagonal [of "[(0, 0, 0), (1, 0, 0), (0, 1, 0)]" "[(0, 1, 2)]"
      "[(0, 0, 0), (1, 0, 0), (0, 1, 0), (0, 0, 1)]" "[(0, 1, 2, 3)]"]
  by (simp add: tria_mesh_def tetra_mesh_def)

subsection \<open>Local stiffness entries of a tetrahedron\<close>

lemma rowdot_vsub:
  "rowdot (vsub a b) (vsub c d) = rowdot a c - rowdot a d - rowdot b c + rowdot b d"
  by (cases a; cases b; cases c; cases d) (simp add: algebra_simps)

lemma rowdot_commute: "rowdot a b = rowdot b a"
  by (cases a; cases b) simp

lemma edge_scheme_orientation:
  "edge_scheme (vsub p r) (vsub q r) (vsub s r) = edge_scheme (vsub p s) (vsub q s) (vsub r s)"
  unfolding edge_scheme_def rowdot_vsub
  by (simp add: rowdot_commute [of r p] rowdot_commute [of q p] rowdot_commute [of s p]
      rowdot_commute [of r q] rowdot_commute [of s q] rowdot_commute [of s r] algebra_simps)

lemma opp_entry_orientation: "opp_entry p q r s w = opp_entry p q s r w"
  by (simp add: opp_entry_def edge_scheme_orientation [of p r q s])

lemma concat_block:
  assumes "k < length xss" and "\<And>xs. xs \<in> set xss \<Longrightarrow> length xs = n"
  shows "take n (drop (n * k) (concat xss)) = xss ! k"
  using assms
proof (induction xss arbitrary: k)
  case Nil
  then show ?case by simp
next
  case (Cons xs xss)
  show ?case
  proof (cases k)
    case 0
    then show ?thesis using Cons.prems(2) [of xs] by simp
  next
    case (Suc m)
    have l: "length xs = n" using Cons.prems(2) by simp
    have "drop (n * Suc m) (xs @ concat xss) = drop (n * m) (concat xss)"
      using l by simp
    then show ?thesis using Suc Cons.IH [of m] Cons.prems by simp
  qed
qed

lemma tetra_localA_formula:
  assumes "w \<noteq> 0"
  shows "tetra_localA v (t1, t2, t3, t4) w =
     (let s12 = opp_entry (v ! t1) (v ! t2) (v ! t3) (v ! t4) w;
          s13 = opp_entry (v ! t1) (v ! t3) (v ! t2) (v ! t4) w;
          s14 = opp_entry (v ! t1) (v ! t4) (v ! t2) (v ! t3) w;
          s23 = opp_entry (v ! t2) (v ! t3) (v ! t1) (v ! t4) w;
          s24 = opp_entry (v ! t2) (v ! t4) (v ! t1) (v ! t3) w;
          s34 = opp_entry (v ! t3) (v ! t4) (v ! t1) (v ! t2) w
      in [Some s12, Some s12, Some s23, Some s23, Some s13, Some s13, Some s14, Some s14,
          Some s24, Some s24, Some s34, Some s34,
          Some (- (s12 + s13 + s14)), Some (- (s12 + s23 + s24)),
          Some (- (s13 + s23 + s34)), Some (- (s14 + s24 + s34))])"
proof -
  have c: "rowdot (v ! t2) (v ! t1) = rowdot (v ! t1) (v ! t2)"
    "rowdot (v ! t3) (v ! t1) = rowdot (v ! t1) (v ! t3)"
    "rowdot (v ! t4) (v ! t1) = rowdot (v ! t1) (v ! t4)"
    "rowdot (v ! t3) (v ! t2) = rowdot (v ! t2) (v ! t3)"
    "rowdot (v ! t4) (v ! t2) = rowdot (v ! t2) (v ! t4)"
    "rowdot (v ! t4) (v ! t3) = rowdot (v ! t3) (v ! t4)"
    by (rule rowdot_commute)+
  define e1 where "e1 = vsub (v ! t2) (v ! t1)"
  define e2 where "e2 = vsub (v ! t3) (v ! t2)"
  define e3 where "e3 = vsub (v ! t1) (v ! t3)"
  define e4 where "e4 = vsub (v ! t4) (v ! t1)"
  define e5 where "e5 = vsub (v ! t4) (v ! t2)"
  define e6 where "e6 = vsub (v ! t4) (v ! t3)"
  define n12 where "n12 = - rowdot e3 e6 * rowdot e2 e6 + rowdot e2 e3 * rowdot e6 e6"
  define n13 where "n13 = - rowdot e1 e5 * rowdot e2 e5 + rowdot e1 e2 * rowdot e5 e5"
  define n14 where "n14 = rowdot e2 e3 * rowdot e2 e6 - rowdot e3 e6 * rowdot e2 e2"
  define n23 where "n23 = - rowdot e1 e4 * rowdot e3 e4 + rowdot e1 e3 * rowdot e4 e4"
  define n24 where "n24 = rowdot e1 e3 * rowdot e3 e4 - rowdot e1 e4 * rowdot e3 e3"
  define n34 where "n34 = - rowdot e1 e4 * rowdot e1 e3 + rowdot e1 e1 * rowdot e3 e4"
  have shape: "tetra_localA v (t1, t2, t3, t4) w =
       [Some (n12 / w / 6), Some (n12 / w / 6), Some (n23 / w / 6), Some (n23 / w / 6),
        Some (n13 / w / 6), Some (n13 / w / 6), Some (n14 / w / 6), Some (n14 / w / 6),
        Some (n24 / w / 6), Some (n24 / w / 6), Some (n34 / w / 6), Some (n34 / w / 6),
        Some ((- (n12 / w) - n13 / w - n14 / w) / 6),
        Some ((- (n12 / w) - n23 / w - n24 / w) / 6),
        Some ((- (n13 / w) - n23 / w - n34 / w) / 6),
        Some ((- (n14 / w) - n24 / w - n34 / w) / 6)]"
    unfolding tetra_localA_def Let_def prod.case
      e1_def [symmetric] e2_def [symmetric] e3_def [symmetric] e4_def [symmetric]
      e5_def [symmetric] e6_def [symmetric] n12_def [symmetric] n13_def [symmetric] n14_def [symmetric]
      n23_def [symmetric] n24_def [symmetric] n34_def [symmetric]
    using assms by (simp add: np_div_def np_sub_def np_neg_def)
  have s12: "n12 / w / 6 = opp_entry (v ! t1) (v ! t2) (v ! t3) (v ! t4) w"
    unfolding n12_def e1_def e2_def e3_def e4_def e5_def e6_def opp_entry_def edge_scheme_def
      rowdot_vsub
    by (simp add: c algebra_simps)
  have s13: "n13 / w / 6 = opp_entry (v ! t1) (v ! t3) (v ! t2) (v ! t4) w"
    unfolding n13_def e1_def e2_def e3_def e4_def e5_def e6_def opp_entry_def edge_scheme_def
      rowdot_vsub
    by (simp add: c algebra_simps)
  have s14: "n14 / w / 6 = opp_entry (v ! t1) (v ! t4) (v ! t2) (v ! t3) w"
    unfolding n14_def e1_def e2_def e3_def e4_def e5_def e6_def opp_entry_def edge_scheme_def
      rowdot_vsub
    by (simp add: c algebra_simps)
  have s23: "n23 / w / 6 = opp_entry (v ! t2) (v ! t3) (v ! t1) (v ! t4) w"
    unfolding n23_def e1_def e2_def e3_def e4_def e5_def e6_def opp_entry_def edge_scheme_def
      rowdot_vsub
    by (simp add: c algebra_simps)
  have s24: "n24 / w / 6 = opp_entry (v ! t2) (v ! t4) (v ! t1) (v ! t3) w"
    unfolding n24_def e1_def e2_def e3_def e4_def e5_def e6_def opp_entry_def edge_scheme_def
      rowdot_vsub
    by (simp add: c algebra_simps)
  have s34: "n34 / w / 6 = opp_entry (v ! t3) (v ! t4) (v ! t1) (v ! t2) w"
    unfolding n34_def e1_def e2_def e3_def e4_def e5_def e6_def opp_entry_def edge_scheme_def
      rowdot_vsub
    by (simp add: c algebra_simps)
  have d: "(- (a / w) - b / w - c / w) / 6 = - (a / w / 6 + b / w / 6 + c / w / 6)" for a b c :: real
    by (simp add: field_simps)
  show ?thesis
    unfolding shape Let_def d s12 s13 s14 s23 s24 s34 by (rule refl)
qed

lemma concat_map2_block:
  assumes "k < length ts" and "length ws = length ts" and "\<And>t w. length (h t w) = n"
  shows "take n (drop (n * k) (concat (map2 h ts ws))) = h (ts ! k) (ws ! k)"
proof -
  have "take n (drop (n * k) (concat (map2 h ts ws))) = map2 h ts ws ! k"
    by (rule concat_block) (use assms in auto)
  also have "\<dots> = h (ts ! k) (ws ! k)" using assms by simp
  finally show ?thesis .
qed

lemma tetra_guard_nth:
  assumes "k < length xs" and "xs ! k \<noteq> 0"
  shows "tetra_guard xs ! k = xs ! k"
  using assms by (simp add: tetra_guard_def Let_def)

lemma tria_guard_nth:
  assumes "k < length xs" and "float_epsilon \<le> xs ! k"
  shows "tria_guard xs ! k = xs ! k"
  using assms by (simp add: tria_guard_def Let_def)

lemma tria_guard_nth_small:
  assumes "k < length xs" and "xs ! k < float_epsilon"
  shows "tria_guard xs ! k = 0.0001 * np_mean xs"
  using assms by (simp add: tria_guard_def Let_def)


text \<open>
  Claim C5. For every non-degenerate tetrahedron \<open>t ! k = (t1, t2, t3, t4)\<close> of a mesh that
  \<^verbatim>\<open>computeABtetra\<close> processes, the sixteen entries it contributes to the coordinate list of
  \<open>A\<close> are: at both positions of each of the six edges \<open>(i, j)\<close>, the value
  \<open>((El \<cdot> Ek) (Em \<cdot> Ek) - (El \<cdot> Em) (Ek \<cdot> Ek)) / (6 * volume proxy)\<close> of the spec's scheme,
  the volume proxy being \<^verbatim>\<open>vol\<close> (six times the volume); and at each diagonal position
  the negated sum of the three off-diagonal values of that row. By
  \<open>opp_entry_orientation\<close> the value does not depend on which end of the opposing edge
  is taken as its start point.
\<close>

theorem tetra_local_stiffness_entries:
  "tetra_mesh v t \<and> k < length t \<and> t ! k = (t1, t2, t3, t4) \<and> tetra_vol v (t ! k) \<noteq> 0 \<longrightarrow>
     (\<exists>A B. computeABtetra v t lump = Inr (A, B) \<and>
        take 16 (drop (16 * k) (coo A)) =
          (let w = tetra_vol v (t ! k);
               s12 = opp_entry (v ! t1) (v ! t2) (v ! t3) (v ! t4) w;
               s13 = opp_entry (v ! t1) (v ! t3) (v ! t2) (v ! t4) w;
               s14 = opp_entry (v ! t1) (v ! t4) (v ! t2) (v ! t3) w;
               s23 = opp_entry (v ! t2) (v ! t3) (v ! t1) (v ! t4) w;
               s24 = opp_entry (v ! t2) (v ! t4) (v ! t1) (v ! t3) w;
               s34 = opp_entry (v ! t3) (v ! t4) (v ! t1) (v ! t2) w
           in [(t1, t2, Some s12), (t2, t1, Some s12), (t2, t3, Some s23), (t3, t2, Some s23),
               (t3, t1, Some s13), (t1, t3, Some s13), (t1, t4, Some s14), (t4, t1, Some s14),
               (t2, t4, Some s24), (t4, t2, Some s24), (t3, t4, Some s34), (t4, t3, Some s34),
               (t1, t1, Some (- (s12 + s13 + s14))), (t2, t2, Some (- (s12 + s23 + s24))),
               (t3, t3, Some (- (s13 + s23 + s34))), (t4, t4, Some (- (s14 + s24 + s34)))]))"
proof (intro impI)
  assume h: "tetra_mesh v t \<and> k < length t \<and> t ! k = (t1, t2, t3, t4) \<and> tetra_vol v (t ! k) \<noteq> 0"
  then obtain A B where c: "computeABtetra v t lump = Inr (A, B)"
    using computeABtetra_total by blast
  let ?vol = "tetra_guard (map (tetra_vol v) t)"
  let ?E = "\<lambda>tr w. zip (tetra_I tr) (zip (tetra_J tr) (tetra_localA v tr w))"
  have k: "k < length t" and tk: "t ! k = (t1, t2, t3, t4)" and nz: "tetra_vol v (t ! k) \<noteq> 0"
    using h by blast+
  have w: "?vol ! k = tetra_vol v (t ! k)"
    using k nz by (simp add: tetra_guard_nth)
  have "take 16 (drop (16 * k) (coo A)) = ?E (t ! k) (?vol ! k)"
    unfolding computeABtetra_coo(1) [OF c]
    by (rule concat_map2_block) (use k in simp_all)
  also have "\<dots> = zip (tetra_I (t1, t2, t3, t4)) (zip (tetra_J (t1, t2, t3, t4))
       (tetra_localA v (t1, t2, t3, t4) (tetra_vol v (t ! k))))"
    by (simp only: w tk)
  finally have "take 16 (drop (16 * k) (coo A)) =
       zip (tetra_I (t1, t2, t3, t4)) (zip (tetra_J (t1, t2, t3, t4))
         (tetra_localA v (t1, t2, t3, t4) (tetra_vol v (t ! k))))" .
  then show "\<exists>A B. computeABtetra v t lump = Inr (A, B) \<and>
        take 16 (drop (16 * k) (coo A)) =
          (let w = tetra_vol v (t ! k);
               s12 = opp_entry (v ! t1) (v ! t2) (v ! t3) (v ! t4) w;
               s13 = opp_entry (v ! t1) (v ! t3) (v ! t2) (v ! t4) w;
               s14 = opp_entry (v ! t1) (v ! t4) (v ! t2) (v ! t3) w;
               s23 = opp_entry (v ! t2) (v ! t3) (v ! t1) (v ! t4) w;
               s24 = opp_entry (v ! t2) (v ! t4) (v ! t1) (v ! t3) w;
               s34 = opp_entry (v ! t3) (v ! t4) (v ! t1) (v ! t2) w
           in [(t1, t2, Some s12), (t2, t1, Some s12), (t2, t3, Some s23), (t3, t2, Some s23),
               (t3, t1, Some s13), (t1, t3, Some s13), (t1, t4, Some s14), (t4, t1, Some s14),
               (t2, t4, Some s24), (t4, t2, Some s24), (t3, t4, Some s34), (t4, t3, Some s34),
               (t1, t1, Some (- (s12 + s13 + s14))), (t2, t2, Some (- (s12 + s23 + s24))),
               (t3, t3, Some (- (s13 + s23 + s34))), (t4, t4, Some (- (s14 + s24 + s34)))])"
    using c
    by (simp add: tetra_localA_formula [OF nz [unfolded tk]] tk Let_def)
qed


text \<open>The unit tetrahedron, with the values the formula gives there.\<close>

theorem tetra_local_stiffness_entries_witness:
  "tetra_mesh [(0, 0, 0), (1, 0, 0), (0, 1, 0), (0, 0, 1)] [(0, 1, 2, 3)] \<and>
   tetra_vol [(0, 0, 0), (1, 0, 0), (0, 1, 0), (0, 0, 1)] (0, 1, 2, 3) = 1 \<and>
   (\<exists>A B. computeABtetra [(0, 0, 0), (1, 0, 0), (0, 1, 0), (0, 0, 1)] [(0, 1, 2, 3)] False = Inr (A, B) \<and>
      take 16 (drop (16 * 0) (coo A)) =
        [(0, 1, Some (- (1 / 6))), (1, 0, Some (- (1 / 6))), (1, 2, Some 0), (2, 1, Some 0),
         (2, 0, Some (- (1 / 6))), (0, 2, Some (- (1 / 6))), (0, 3, Some (- (1 / 6))), (3, 0, Some (- (1 / 6))),
         (1, 3, Some 0), (3, 1, Some 0), (2, 3, Some 0), (3, 2, Some 0),
         (0, 0, Some (1 / 2)), (1, 1, Some (1 / 6)), (2, 2, Some (1 / 6)), (3, 3, Some (1 / 6))])"
  using tetra_local_stiffness_entries [of "[(0, 0, 0), (1, 0, 0), (0, 1, 0), (0, 0, 1)]" "[(0, 1, 2, 3)]"
      0 0 1 2 3 False]
  by (simp add: tetra_mesh_def tetra_vol_def opp_entry_def edge_scheme_def Let_def)


subsection \<open>Contributions to the mass matrix of a triangle mesh\<close>

text \<open>
  Claim C6, as amended. For every triangle mesh, triangle \<open>k = (t1, t2, t3)\<close> contributes to
  the non-lumped mass matrix \<open>B\<close> the value \<open>w / 48\<close> at its six off-diagonal positions and
  \<open>w / 24\<close> at its three diagonal positions, and to the lumped mass matrix the one value
  \<open>w / 12\<close> at each of the diagonal positions \<open>(t1, t1)\<close>, \<open>(t2, t2)\<close>, \<open>(t3, t3)\<close>; the
  lumped matrix stores nothing off the diagonal. Here \<open>w\<close> is the entry of \<^verbatim>\<open>vol\<close> for the
  triangle after the guard: four times the area of the triangle when that is at least
  machine epsilon, and otherwise the substitute of the guard, \<open>0.0001\<close> times the mean of the
  values of four times the area over all triangles of the mesh.
\<close>

theorem tria_mass_contributions:
  "tria_mesh v t \<and> k < length t \<and> t ! k = (t1, t2, t3) \<longrightarrow>
     (\<exists>A B A' B'. computeABtria v t False = Inr (A, B) \<and> computeABtria v t True = Inr (A', B') \<and>
        (let w = tria_guard (map (tria_vol v) t) ! k in
           take 9 (drop (9 * k) (coo B)) =
             [(t1, t2, Some (w / 48)), (t2, t1, Some (w / 48)), (t2, t3, Some (w / 48)),
              (t3, t2, Some (w / 48)), (t3, t1, Some (w / 48)), (t1, t3, Some (w / 48)),
              (t1, t1, Some (w / 24)), (t2, t2, Some (w / 24)), (t3, t3, Some (w / 24))] \<and>
           take 3 (drop (3 * k) (coo B')) =
             [(t1, t1, Some (w / 12)), (t2, t2, Some (w / 12)), (t3, t3, Some (w / 12))] \<and>
           (float_epsilon \<le> tria_vol v (t ! k) \<longrightarrow> w = tria_vol v (t ! k)) \<and>
           (tria_vol v (t ! k) < float_epsilon \<longrightarrow> w = 0.0001 * np_mean (map (tria_vol v) t))) \<and>
        length (coo B) = 9 * length t \<and> length (coo B') = 3 * length t \<and>
        list_all (\<lambda>(r, c, x). r = c) (coo B'))"
proof (intro impI)
  assume h: "tria_mesh v t \<and> k < length t \<and> t ! k = (t1, t2, t3)"
  then have m: "tria_mesh v t" and k: "k < length t" and tk: "t ! k = (t1, t2, t3)" by simp_all
  obtain A B where c: "computeABtria v t False = Inr (A, B)"
    using computeABtria_total [OF m] by blast
  obtain A' B' where c': "computeABtria v t True = Inr (A', B')"
    using computeABtria_total [OF m] by blast
  let ?vol = "tria_guard (map (tria_vol v) t)"
  let ?EB = "\<lambda>tr w. zip (tria_I tr) (zip (tria_J tr) (tria_localB w))"
  let ?EL = "\<lambda>tr w. zip (tria_I_lump tr) (zip (tria_I_lump tr) (tria_localB_lump w))"
  have cB: "coo B = concat (map2 ?EB t ?vol)" using computeABtria_coo(2) [OF c] by simp
  have cL: "coo B' = concat (map2 ?EL t ?vol)" using computeABtria_coo(3) [OF c'] by simp
  have b1: "take 9 (drop (9 * k) (coo B)) = ?EB (t ! k) (?vol ! k)"
    unfolding cB by (rule concat_map2_block) (use k in simp_all)
  have b2: "take 3 (drop (3 * k) (coo B')) = ?EL (t ! k) (?vol ! k)"
    unfolding cL by (rule concat_map2_block) (use k in simp_all)
  have l1: "length (coo B) = 9 * length t"
    unfolding cB by (rule length_concat_map2_const) simp_all
  have l2: "length (coo B') = 3 * length t"
    unfolding cL by (rule length_concat_map2_const) simp_all
  have g: "float_epsilon \<le> tria_vol v (t ! k) \<Longrightarrow> ?vol ! k = tria_vol v (t ! k)"
    using k by (simp add: tria_guard_nth)
  have s: "tria_vol v (t ! k) < float_epsilon \<Longrightarrow> ?vol ! k = 0.0001 * np_mean (map (tria_vol v) t)"
    using k by (simp add: tria_guard_nth_small)
  have dg0: "\<And>e. e \<in> set (concat (map2 ?EL t ?vol)) \<Longrightarrow> fst e = fst (snd e)"
  proof -
    fix e assume "e \<in> set (concat (map2 ?EL t ?vol))"
    then obtain x where "x \<in> set (zip t ?vol)" and e: "e \<in> set (case x of (tr, w) \<Rightarrow> ?EL tr w)"
      by auto
    obtain a b c w where "x = ((a, b, c), w)" by (cases x) auto
    then have "e \<in> set [(a, a, Some (w / 12)), (b, b, Some (w / 12)), (c, c, Some (w / 12))]"
      using e by (simp add: tria_localB_lump_def Let_def np_div_def)
    then show "fst e = fst (snd e)" by auto
  qed
  have dg: "list_all (\<lambda>(r, c, x). r = c) (coo B')"
    unfolding list_all_iff cL
  proof (rule ballI)
    fix e assume "e \<in> set (concat (map2 ?EL t ?vol))"
    then have "fst e = fst (snd e)" by (rule dg0)
    then show "case e of (r, c, x) \<Rightarrow> r = c" by (simp add: case_prod_unfold)
  qed
  show "\<exists>A B A' B'. computeABtria v t False = Inr (A, B) \<and> computeABtria v t True = Inr (A', B') \<and>
        (let w = tria_guard (map (tria_vol v) t) ! k in
           take 9 (drop (9 * k) (coo B)) =
             [(t1, t2, Some (w / 48)), (t2, t1, Some (w / 48)), (t2, t3, Some (w / 48)),
              (t3, t2, Some (w / 48)), (t3, t1, Some (w / 48)), (t1, t3, Some (w / 48)),
              (t1, t1, Some (w / 24)), (t2, t2, Some (w / 24)), (t3, t3, Some (w / 24))] \<and>
           take 3 (drop (3 * k) (coo B')) =
             [(t1, t1, Some (w / 12)), (t2, t2, Some (w / 12)), (t3, t3, Some (w / 12))] \<and>
           (float_epsilon \<le> tria_vol v (t ! k) \<longrightarrow> w = tria_vol v (t ! k)) \<and>
           (tria_vol v (t ! k) < float_epsilon \<longrightarrow> w = 0.0001 * np_mean (map (tria_vol v) t))) \<and>
        length (coo B) = 9 * length t \<and> length (coo B') = 3 * length t \<and>
        list_all (\<lambda>(r, c, x). r = c) (coo B')"
    apply (rule exI [of _ A], rule exI [of _ B], rule exI [of _ A'], rule exI [of _ B'])
    using c c' l1 l2 dg g s
    by (simp add: b1 b2 tk Let_def tria_localB_def tria_localB_lump_def np_div_def)
qed

text \<open>
  A mesh of a right triangle of area \<open>1/2\<close> and a triangle of area zero: \<open>w = 2\<close> for the
  first, and the substitute \<open>w = 0.0001 \<times> 1\<close> for the second.
\<close>

theorem tria_mass_contributions_witness:
  "tria_mesh [(0, 0, 0), (1, 0, 0), (0, 1, 0), (2, 0, 0)] [(0, 1, 2), (0, 1, 3)] \<and>
   tria_vol [(0, 0, 0), (1, 0, 0), (0, 1, 0), (2, 0, 0)] (0, 1, 2) = 2 \<and>
   tria_vol [(0, 0, 0), (1, 0, 0), (0, 1, 0), (2, 0, 0)] (0, 1, 3) = 0 \<and>
   np_mean (map (tria_vol [(0, 0, 0), (1, 0, 0), (0, 1, 0), (2, 0, 0)]) [(0, 1, 2), (0, 1, 3)]) = 1 \<and>
   (\<exists>A B A' B'.
      computeABtria [(0, 0, 0), (1, 0, 0), (0, 1, 0), (2, 0, 0)] [(0, 1, 2), (0, 1, 3)] False = Inr (A, B) \<and>
      computeABtria [(0, 0, 0), (1, 0, 0), (0, 1, 0), (2, 0, 0)] [(0, 1, 2), (0, 1, 3)] True = Inr (A', B') \<and>
      take 9 (drop (9 * 0) (coo B)) =
        [(0, 1, Some (1 / 24)), (1, 0, Some (1 / 24)), (1, 2, Some (1 / 24)),
         (2, 1, Some (1 / 24)), (2, 0, Some (1 / 24)), (0, 2, Some (1 / 24)),
         (0, 0, Some (1 / 12)), (1, 1, Some (1 / 12)), (2, 2, Some (1 / 12))] \<and>
      take 3 (drop (3 * 0) (coo B')) =
        [(0, 0, Some (1 / 6)), (1, 1, Some (1 / 6)), (2, 2, Some (1 / 6))] \<and>
      take 9 (drop (9 * 1) (coo B)) =
        [(0, 1, Some (1 / 480000)), (1, 0, Some (1 / 480000)), (1, 3, Some (1 / 480000)),
         (3, 1, Some (1 / 480000)), (3, 0, Some (1 / 480000)), (0, 3, Some (1 / 480000)),
         (0, 0, Some (1 / 240000)), (1, 1, Some (1 / 240000)), (3, 3, Some (1 / 240000))] \<and>
      take 3 (drop (3 * 1) (coo B')) =
        [(0, 0, Some (1 / 120000)), (1, 1, Some (1 / 120000)), (3, 3, Some (1 / 120000))])"
proof -
  have g: "tria_guard (map (tria_vol [(0, 0, 0), (1, 0, 0), (0, 1, 0), (2, 0, 0)]) [(0, 1, 2), (0, 1, 3)]) = [2, 1 / 10000]"
    by (simp add: tria_vol_def tria_guard_def np_mean_def float_epsilon_def)
  have m: "tria_mesh [(0, 0, 0), (1, 0, 0), (0, 1, 0), (2, 0, 0)] [(0, 1, 2), (0, 1, 3)]"
    by (simp add: tria_mesh_def)
  have v: "tria_vol [(0, 0, 0), (1, 0, 0), (0, 1, 0), (2, 0, 0)] (0, 1, 2) = 2" "tria_vol [(0, 0, 0), (1, 0, 0), (0, 1, 0), (2, 0, 0)] (0, 1, 3) = 0"
    "np_mean (map (tria_vol [(0, 0, 0), (1, 0, 0), (0, 1, 0), (2, 0, 0)]) [(0, 1, 2), (0, 1, 3)]) = 1"
    by (simp_all add: tria_vol_def np_mean_def)
  have a: "tria_mesh [(0, 0, 0), (1, 0, 0), (0, 1, 0), (2, 0, 0)] [(0, 1, 2), (0, 1, 3)] \<and> 0 < length [(0, 1, 2), (0, 1, 3)] \<and> [(0, 1, 2), (0, 1, 3)] ! 0 = (0, 1, 2)"
    using m by simp
  have b: "tria_mesh [(0, 0, 0), (1, 0, 0), (0, 1, 0), (2, 0, 0)] [(0, 1, 2), (0, 1, 3)] \<and> 1 < length [(0, 1, 2), (0, 1, 3)] \<and> [(0, 1, 2), (0, 1, 3)] ! 1 = (0, 1, 3)"
    using m by simp
  from tria_mass_contributions [of "[(0, 0, 0), (1, 0, 0), (0, 1, 0), (2, 0, 0)]" "[(0, 1, 2), (0, 1, 3)]" 0 0 1 2] a
  obtain A B A' B' where
    r0: "computeABtria [(0, 0, 0), (1, 0, 0), (0, 1, 0), (2, 0, 0)] [(0, 1, 2), (0, 1, 3)] False = Inr (A, B)"
        "computeABtria [(0, 0, 0), (1, 0, 0), (0, 1, 0), (2, 0, 0)] [(0, 1, 2), (0, 1, 3)] True = Inr (A', B')"
        "take 9 (drop (9 * 0) (coo B)) =
           [(0, 1, Some (1 / 24)), (1, 0, Some (1 / 24)), (1, 2, Some (1 / 24)),
            (2, 1, Some (1 / 24)), (2, 0, Some (1 / 24)), (0, 2, Some (1 / 24)),
            (0, 0, Some (1 / 12)), (1, 1, Some (1 / 12)), (2, 2, Some (1 / 12))]"
        "take 3 (drop (3 * 0) (coo B')) =
           [(0, 0, Some (1 / 6)), (1, 1, Some (1 / 6)), (2, 2, Some (1 / 6))]"
    unfolding g Let_def by auto
  from tria_mass_contributions [of "[(0, 0, 0), (1, 0, 0), (0, 1, 0), (2, 0, 0)]" "[(0, 1, 2), (0, 1, 3)]" 1 0 1 3] b
  have "take 9 (drop (9 * 1) (coo B)) =
        [(0, 1, Some (1 / 480000)), (1, 0, Some (1 / 480000)), (1, 3, Some (1 / 480000)),
         (3, 1, Some (1 / 480000)), (3, 0, Some (1 / 480000)), (0, 3, Some (1 / 480000)),
         (0, 0, Some (1 / 240000)), (1, 1, Some (1 / 240000)), (3, 3, Some (1 / 240000))] \<and>
      take 3 (drop (3 * 1) (coo B')) =
        [(0, 0, Some (1 / 120000)), (1, 1, Some (1 / 120000)), (3, 3, Some (1 / 120000))]"
    unfolding g Let_def r0(1,2) by auto
  with r0 m v show ?thesis by blast
qed

text \<open>
  Claim C6 as it is stated gives the contributions as \<open>(4 \<times> area) / 48\<close>, \<open>/ 24\<close> and \<open>/ 12\<close>
  for every triangle. On the same mesh the second triangle \<open>(0, 1, 3)\<close> has area zero, and
  the entries it contributes are \<open>0.0001 / 48\<close> and \<open>0.0001 / 24\<close> to the non-lumped matrix
  and \<open>0.0001 / 12\<close> to the lumped one, not \<open>0\<close>: the guard has replaced its \<^verbatim>\<open>vol\<close> before
  the mass entries are computed.
\<close>

theorem tria_mass_degenerate_triangle:
  "tria_mesh [(0, 0, 0), (1, 0, 0), (0, 1, 0), (2, 0, 0)] [(0, 1, 2), (0, 1, 3)] \<and>
   tria_vol [(0, 0, 0), (1, 0, 0), (0, 1, 0), (2, 0, 0)] (0, 1, 3) = 0 \<and>
   (\<exists>A B.
      computeABtria [(0, 0, 0), (1, 0, 0), (0, 1, 0), (2, 0, 0)] [(0, 1, 2), (0, 1, 3)] False = Inr (A, B) \<and>
      coo B ! 9 = (0, 1, Some (1 / 480000)) \<and> coo B ! 15 = (0, 0, Some (1 / 240000)) \<and>
      snd (snd (coo B ! 9)) \<noteq> Some (tria_vol [(0, 0, 0), (1, 0, 0), (0, 1, 0), (2, 0, 0)] (0, 1, 3) / 48) \<and>
      snd (snd (coo B ! 15)) \<noteq> Some (tria_vol [(0, 0, 0), (1, 0, 0), (0, 1, 0), (2, 0, 0)] (0, 1, 3) / 24)) \<and>
   (\<exists>A B.
      computeABtria [(0, 0, 0), (1, 0, 0), (0, 1, 0), (2, 0, 0)] [(0, 1, 2), (0, 1, 3)] True = Inr (A, B) \<and>
      coo B ! 3 = (0, 0, Some (1 / 120000)) \<and>
      snd (snd (coo B ! 3)) \<noteq> Some (tria_vol [(0, 0, 0), (1, 0, 0), (0, 1, 0), (2, 0, 0)] (0, 1, 3) / 12))"
  by (simp add: tria_mesh_def computeABtria_def tria_vol_def tria_guard_def np_mean_def
      float_epsilon_def tria_localA_def csc_matrix_def np_div_def np_sub_def np_neg_def
      tria_localB_def tria_localB_lump_def Let_def)

section \<open>Properties of the solver entry points\<close>

lemma set_tria_lists:
  "set (tria_I tr) = set (tria_I_lump tr)" "set (tria_J tr) = set (tria_I_lump tr)"
  by (cases tr; auto)+

lemma set_tetra_lists:
  "set (tetra_I tr) = set (tetra_I_lump tr)" "set (tetra_J tr) = set (tetra_I_lump tr)"
  by (cases tr; auto)+

lemma computeABtria_shapes:
  assumes "computeABtria v t lump = Inr (A, M)"
  shows "nrows A = nrows M" and "ncols A = ncols M"
proof -
  have p: "t \<noteq> []" "list_all (tria_in_bounds (length v)) t"
    using computeABtria_parts [OF assms] by simp_all
  have s: "(\<Union>a\<in>set t. set (tria_I a)) = (\<Union>a\<in>set t. set (tria_I_lump a))"
     "(\<Union>a\<in>set t. set (tria_J a)) = (\<Union>a\<in>set t. set (tria_I_lump a))"
    by (simp_all add: set_tria_lists)
  show "nrows A = nrows M" and "ncols A = ncols M"
    using assms computeABtria_Inr [OF p, of lump] by (auto simp: s)
qed

lemma computeABtetra_shapes:
  assumes "computeABtetra v t lump = Inr (A, M)"
  shows "nrows A = nrows M" and "ncols A = ncols M"
proof -
  have p: "t \<noteq> []" "list_all (tetra_in_bounds (length v)) t"
    using computeABtetra_parts [OF assms] by simp_all
  have s: "(\<Union>a\<in>set t. set (tetra_I a)) = (\<Union>a\<in>set t. set (tetra_I_lump a))"
     "(\<Union>a\<in>set t. set (tetra_J a)) = (\<Union>a\<in>set t. set (tetra_I_lump a))"
    by (simp_all add: set_tetra_lists)
  show "nrows A = nrows M" and "ncols A = ncols M"
    using assms computeABtetra_Inr [OF p, of lump] by (auto simp: s)
qed

lemma mat_sub_same_shape:
  assumes "nrows A = nrows M" and "ncols A = ncols M"
  shows "\<exists>S. mat_sub A (mat_scale s M) = Inr S"
  using assms by (simp add: mat_sub_def mat_scale_def)

lemma laplace_solve_run:
  assumes "mat_sub A (mat_scale (- 0.01) M) = Inr S"
  shows "fst (laplace_solve env (Inr (A, M)) k) =
           solver_banner (cholesky env \<noteq> None) @ factor_call env S #
             (case factor env S of Inl e \<Rightarrow> [] | Inr OPinv \<Rightarrow> [Call_eigsh A k M (- 0.01)])"
    and "snd (laplace_solve env (Inr (A, M)) k) =
           (case factor env S of Inl e \<Rightarrow> Inl e | Inr OPinv \<Rightarrow> eigsh env A k M (- 0.01) OPinv)"
  using assms
  by (auto simp: laplace_solve_def Let_def factor_call_def factor_def split: option.splits sum.splits)



text \<open>
  Claim C3, as amended. \<^verbatim>\<open>laplaceTria\<close> and \<^verbatim>\<open>laplaceTetra\<close> make no check of \<open>k\<close>. On every
  accepted mesh and for every \<open>k\<close>, also \<open>k \<ge> n_vertices\<close>, they announce the solver, then
  call the factorization on the shifted matrix \<open>A - \<sigma>M\<close> with \<open>\<sigma> = -0.01\<close>; when the
  factorization raises, its error is the outcome; otherwise \<open>k\<close> goes unchanged to \<open>eigsh\<close>,
  and whatever \<open>eigsh\<close> returns or raises is the outcome. A \<open>k\<close> that is too large is
  refused, if at all, by \<open>eigsh\<close>, after the factorization.
\<close>

theorem laplace_factorizes_whatever_k:
  "(tria_mesh v t \<longrightarrow>
      (\<exists>A M S. computeABtria v t lump = Inr (A, M) \<and> mat_sub A (mat_scale (- 0.01) M) = Inr S \<and>
         fst (laplaceTria env v t k lump) =
           solver_banner (cholesky env \<noteq> None) @ factor_call env S #
             (case factor env S of Inl e \<Rightarrow> [] | Inr OPinv \<Rightarrow> [Call_eigsh A k M (- 0.01)]) \<and>
         snd (laplaceTria env v t k lump) =
           (case factor env S of Inl e \<Rightarrow> Inl e | Inr OPinv \<Rightarrow> eigsh env A k M (- 0.01) OPinv))) \<and>
   (tetra_mesh v' t' \<longrightarrow>
      (\<exists>A M S. computeABtetra v' t' lump' = Inr (A, M) \<and> mat_sub A (mat_scale (- 0.01) M) = Inr S \<and>
         fst (laplaceTetra env v' t' k' lump') =
           solver_banner (cholesky env \<noteq> None) @ factor_call env S #
             (case factor env S of Inl e \<Rightarrow> [] | Inr OPinv \<Rightarrow> [Call_eigsh A k' M (- 0.01)]) \<and>
         snd (laplaceTetra env v' t' k' lump') =
           (case factor env S of Inl e \<Rightarrow> Inl e | Inr OPinv \<Rightarrow> eigsh env A k' M (- 0.01) OPinv)))"
proof (intro conjI impI)
  assume "tria_mesh v t"
  then obtain A M where c: "computeABtria v t lump = Inr (A, M)"
    using computeABtria_total by blast
  obtain S where s: "mat_sub A (mat_scale (- 0.01) M) = Inr S"
    using mat_sub_same_shape [OF computeABtria_shapes [OF c]] by blast
  show "\<exists>A M S. computeABtria v t lump = Inr (A, M) \<and> mat_sub A (mat_scale (- 0.01) M) = Inr S \<and>
         fst (laplaceTria env v t k lump) =
           solver_banner (cholesky env \<noteq> None) @ factor_call env S #
             (case factor env S of Inl e \<Rightarrow> [] | Inr OPinv \<Rightarrow> [Call_eigsh A k M (- 0.01)]) \<and>
         snd (laplaceTria env v t k lump) =
           (case factor env S of Inl e \<Rightarrow> Inl e | Inr OPinv \<Rightarrow> eigsh env A k M (- 0.01) OPinv)"
    using c s laplace_solve_run [OF s, of env k] unfolding laplaceTria_def by auto
next
  assume "tetra_mesh v' t'"
  then obtain A M where c: "computeABtetra v' t' lump' = Inr (A, M)"
    using computeABtetra_total by blast
  obtain S where s: "mat_sub A (mat_scale (- 0.01) M) = Inr S"
    using mat_sub_same_shape [OF computeABtetra_shapes [OF c]] by blast
  show "\<exists>A M S. computeABtetra v' t' lump' = Inr (A, M) \<and> mat_sub A (mat_scale (- 0.01) M) = Inr S \<and>
         fst (laplaceTetra env v' t' k' lump') =
           solver_banner (cholesky env \<noteq> None) @ factor_call env S #
             (case factor env S of Inl e \<Rightarrow> [] | Inr OPinv \<Rightarrow> [Call_eigsh A k' M (- 0.01)]) \<and>
         snd (laplaceTetra env v' t' k' lump') =
           (case factor env S of Inl e \<Rightarrow> Inl e | Inr OPinv \<Rightarrow> eigsh env A k' M (- 0.01) OPinv)"
    using c s laplace_solve_run [OF s, of env k'] unfolding laplaceTetra_def by auto
qed


text \<open>A triangle with \<open>k = 3 = n_vertices\<close> and the unit tetrahedron with \<open>k = 2\<close>.\<close>

theorem laplace_factorizes_whatever_k_witness:
  "tria_mesh [(0, 0, 0), (1, 0, 0), (0, 1, 0)] [(0, 1, 2)] \<and>
   int (length [(0, 0, 0), (1, 0, 0), (0, 1, 0 :: real)]) \<le> 3 \<and>
   (\<exists>A M S. computeABtria [(0, 0, 0), (1, 0, 0), (0, 1, 0)] [(0, 1, 2)] False = Inr (A, M) \<and>
      mat_sub A (mat_scale (- 0.01) M) = Inr S \<and>
      fst (laplaceTria lu_env [(0, 0, 0), (1, 0, 0), (0, 1, 0)] [(0, 1, 2)] 3 False) =
        [Print ''Package scikit-sparse not found (Cholesky decomp)'',
         Print ''Solver: spsolve (LU decomp) - performance not optimal ...'',
         Call_splu S, Call_eigsh A 3 M (- 0.01)] \<and>
      snd (laplaceTria lu_env [(0, 0, 0), (1, 0, 0), (0, 1, 0)] [(0, 1, 2)] 3 False) =
        eigsh lu_env A 3 M (- 0.01) ()) \<and>
   tetra_mesh [(0, 0, 0), (1, 0, 0), (0, 1, 0), (0, 0, 1)] [(0, 1, 2, 3)] \<and>
   (\<exists>A M S. computeABtetra [(0, 0, 0), (1, 0, 0), (0, 1, 0), (0, 0, 1)] [(0, 1, 2, 3)] True = Inr (A, M) \<and>
      mat_sub A (mat_scale (- 0.01) M) = Inr S \<and>
      fst (laplaceTetra lu_env [(0, 0, 0), (1, 0, 0), (0, 1, 0), (0, 0, 1)] [(0, 1, 2, 3)] 2 True) =
        [Print ''Package scikit-sparse not found (Cholesky decomp)'',
         Print ''Solver: spsolve (LU decomp) - performance not optimal ...'',
         Call_splu S, Call_eigsh A 2 M (- 0.01)] \<and>
      snd (laplaceTetra lu_env [(0, 0, 0), (1, 0, 0), (0, 1, 0), (0, 0, 1)] [(0, 1, 2, 3)] 2 True) =
        eigsh lu_env A 2 M (- 0.01) ())"
  using laplace_factorizes_whatever_k [where v = "[(0, 0, 0), (1, 0, 0), (0, 1, 0)]" and t = "[(0, 1, 2)]"
      and lump = False and env = lu_env and k = 3
      and v' = "[(0, 0, 0), (1, 0, 0), (0, 1, 0), (0, 0, 1)]" and t' = "[(0, 1, 2, 3)]"
      and lump' = True and k' = 2]
  by (simp add: tria_mesh_def tetra_mesh_def solver_banner_def factor_call_def factor_def lu_env_def)


text \<open>
  Claim C3 as it is stated: for \<open>k \<ge> n_vertices\<close> the entry points fail before they
  attempt the factorization. With three vertices and \<open>k = 3\<close>, the LU factorization is
  called first, then \<open>eigsh\<close>, and the error returned is the one \<open>eigsh\<close> raises.
\<close>

theorem laplaceTria_large_k_factorizes_first:
  "int (length [(0, 0, 0), (1, 0, 0), (0, 1, 0 :: real)]) \<le> 3 \<and>
   (\<exists>A M S. fst (laplaceTria lu_env [(0, 0, 0), (1, 0, 0), (0, 1, 0)] [(0, 1, 2)] 3 False) =
        [Print ''Package scikit-sparse not found (Cholesky decomp)'',
         Print ''Solver: spsolve (LU decomp) - performance not optimal ...'',
         Call_splu S, Call_eigsh A 3 M (- 0.01)]) \<and>
   snd (laplaceTria lu_env [(0, 0, 0), (1, 0, 0), (0, 1, 0)] [(0, 1, 2)] 3 False) =
     Inl (LibraryError ''TypeError'')"
  by (simp add: laplaceTria_def laplace_solve_def solver_banner_def lu_env_def mat_sub_def mat_scale_def
      computeABtria_def tria_vol_def tria_guard_def np_mean_def float_epsilon_def
      tria_localA_def csc_matrix_def np_div_def np_sub_def np_neg_def tria_localB_def Let_def)





section \<open>Properties of the readers\<close>

text \<open>
  Claim C8. For every filename that does not exist in the file system, \<^verbatim>\<open>importMGH\<close> issues
  one warning and returns the not-a-number sentinel; it raises no exception.
\<close>

theorem importMGH_missing_file:
  "fs filename = None \<longrightarrow>
     importMGH np fs filename =
       ([''WARNING: could not find '' @ filename @ '', returning NaNs''], Inr NaN)"
  by (simp add: importMGH_def)


text \<open>An empty file system.\<close>

theorem importMGH_missing_file_witness:
  "Map.empty ''orig.mgz'' = (None :: byte list option) \<and>
   importMGH bytes_numpy Map.empty ''orig.mgz'' =
     ([''WARNING: could not find orig.mgz, returning NaNs''], Inr NaN)"
  using importMGH_missing_file [of Map.empty "''orig.mgz''" bytes_numpy]
  by simp


text \<open>On a file that exists nothing is warned, and a file shorter than its header is an error.\<close>

lemma importMGH_existing_file:
  "fs filename = Some fp \<Longrightarrow> importMGH np fs filename = ([], read_mgh np fp)"
  by (simp add: importMGH_def)

lemma read_mgh_truncated: "read_mgh np [1, 2, 3] = Inl StructError"
  by (simp add: read_mgh_def read_int_def read_unpack_def bind_exc_def)

lemma apply_and_write_unbound: "fst (apply_and_write im img None out_file interp) = []"
  by (simp add: apply_and_write_def Let_def split: option.splits)


text \<open>
  Claim C9. For every \<^verbatim>\<open>.lta\<close> file that \<^verbatim>\<open>readLTA\<close> parses and whose \<^verbatim>\<open>type\<close> field is \<open>1\<close>,
  \<^verbatim>\<open>applyTransform\<close> writes no output and raises the explicit error
  \<^verbatim>\<open>Exception("ERROR: lta type 1 (ras2ras) not supported yet")\<close> (or, when the input image
  itself cannot be loaded, the error of the loader, which runs first). Whenever
  \<^verbatim>\<open>applyTransform\<close> writes an output, the transform file is an \<^verbatim>\<open>.lta\<close> file of type \<open>0\<close>.
\<close>

theorem applyTransform_type1_unsupported:
  "(splitext_ext mat_file = ''.lta'' \<and> readLTA bi fs mat_file = Inr lta \<and> lta ''type'' = Some (VInt 1) \<longrightarrow>
      fst (applyTransform im bi fs img_file out_file mat_file interp) = [] \<and>
      snd (applyTransform im bi fs img_file out_file mat_file interp) =
        (case nb_load im img_file of
           Inl e \<Rightarrow> Inl e
         | Inr img_data \<Rightarrow> Inl (Exception ''ERROR: lta type 1 (ras2ras) not supported yet''))) \<and>
   (fst (applyTransform im' bi' fs' img_file' out_file' mat_file' interp') \<noteq> [] \<longrightarrow>
      splitext_ext mat_file' = ''.lta'' \<and>
      (\<exists>lta'. readLTA bi' fs' mat_file' = Inr lta' \<and> lta' ''type'' = Some (VInt 0)))"
proof (intro conjI impI)
  assume h: "splitext_ext mat_file = ''.lta'' \<and> readLTA bi fs mat_file = Inr lta \<and> lta ''type'' = Some (VInt 1)"
  then show "fst (applyTransform im bi fs img_file out_file mat_file interp) = []"
    by (simp add: applyTransform_def Let_def split: sum.splits)
  from h show "snd (applyTransform im bi fs img_file out_file mat_file interp) =
        (case nb_load im img_file of
           Inl e \<Rightarrow> Inl e
         | Inr img_data \<Rightarrow> Inl (Exception ''ERROR: lta type 1 (ras2ras) not supported yet''))"
    by (simp add: applyTransform_def Let_def split: sum.splits)
next
  assume w: "fst (applyTransform im' bi' fs' img_file' out_file' mat_file' interp') \<noteq> []"
  then show "splitext_ext mat_file' = ''.lta''"
    by (auto simp: applyTransform_def Let_def split: sum.splits if_splits)
  from w show "\<exists>lta'. readLTA bi' fs' mat_file' = Inr lta' \<and> lta' ''type'' = Some (VInt 0)"
    by (auto simp: applyTransform_def Let_def apply_and_write_unbound
        split: sum.splits if_splits option.splits)
qed


text \<open>
  A transform file of type 1, on which the error is raised, and the same file with type 0,
  on which the output is written.
\<close>

theorem applyTransform_type1_unsupported_witness:
  "splitext_ext ''/x/t1.lta'' = ''.lta'' \<and>
   (\<exists>lta. readLTA plain_builtins lta_fs ''/x/t1.lta'' = Inr lta \<and> lta ''type'' = Some (VInt 1)) \<and>
   applyTransform text_imaging plain_builtins lta_fs ''in.nii'' ''out.nii'' ''/x/t1.lta'' ''nearest'' =
     ([], Inl (Exception ''ERROR: lta type 1 (ras2ras) not supported yet'')) \<and>
   fst (applyTransform text_imaging plain_builtins lta_fs ''in.nii'' ''out.nii'' ''/x/t0.lta'' ''nearest'') =
     [(''out.nii'', ''in.nii'')] \<and>
   (\<exists>lta. readLTA plain_builtins lta_fs ''/x/t0.lta'' = Inr lta \<and> lta ''type'' = Some (VInt 0))"
proof -
  have e: "splitext_ext ''/x/t1.lta'' = ''.lta''"
    by code_simp
  have "case readLTA plain_builtins lta_fs ''/x/t1.lta'' of
          Inr d \<Rightarrow> d ''type'' = Some (VInt 1) | Inl e \<Rightarrow> False"
    by code_simp
  then obtain lta where r: "readLTA plain_builtins lta_fs ''/x/t1.lta'' = Inr lta"
      and t: "lta ''type'' = Some (VInt 1)"
    by (cases "readLTA plain_builtins lta_fs ''/x/t1.lta''") auto
  have l: "nb_load text_imaging ''in.nii'' = Inr ''in.nii''"
    by (simp add: text_imaging_def)
  have w: "fst (applyTransform text_imaging plain_builtins lta_fs ''in.nii'' ''out.nii'' ''/x/t0.lta'' ''nearest'') =
     [(''out.nii'', ''in.nii'')]"
    by code_simp
  note inst = applyTransform_type1_unsupported [where mat_file = "''/x/t1.lta''" and bi = plain_builtins
      and fs = lta_fs and lta = lta and im = text_imaging and img_file = "''in.nii''"
      and out_file = "''out.nii''" and interp = "''nearest''"
      and im' = text_imaging and bi' = plain_builtins and fs' = lta_fs and img_file' = "''in.nii''"
      and out_file' = "''out.nii''" and mat_file' = "''/x/t0.lta''" and interp' = "''nearest''"]
  have a: "applyTransform text_imaging plain_builtins lta_fs ''in.nii'' ''out.nii'' ''/x/t1.lta'' ''nearest'' =
     ([], Inl (Exception ''ERROR: lta type 1 (ras2ras) not supported yet''))"
    using inst e r t l by (simp add: prod_eq_iff)
  have b: "\<exists>lta. readLTA plain_builtins lta_fs ''/x/t0.lta'' = Inr lta \<and> lta ''type'' = Some (VInt 0)"
    using inst w by simp
  show ?thesis using e r t a w b by blast
qed

end
